theory Spec2Isabelle
  imports Complex_Main
begin

section \<open>Smart FTP: the synchronisation core\<close>

text \<open>
  A shallow embedding of the TypeScript sources \<^verbatim>\<open>managers/ftpManager.ts\<close>
  (class \<^verbatim>\<open>FTPManager\<close>), the file watcher (class \<^verbatim>\<open>FileWatcher\<close>) and the
  path utilities (class \<^verbatim>\<open>PathUtils\<close>).

  Conventions. Every \<^verbatim>\<open>async\<close> method is cut at its \<^verbatim>\<open>await\<close>s into segments
  that run without interruption (JavaScript is single threaded); what the transport, the
  file system and the clock answer is an explicit argument of the segment that receives it.
  Calls to the logger have no effect on the state and are left out; calls to the status
  manager are recorded in the field \<open>status_log\<close>.
\<close>

subsection \<open>Data model (types/config.ts)\<close>

record WatcherConfig =
  files :: string
  autoUpload :: bool
  autoDelete :: bool
  ignoreCreate :: bool
  ignoreUpdate :: bool
  ignoreDelete :: bool

text \<open>The optional field \<^verbatim>\<open>ignore?: string[]\<close> is \<open>None\<close> when it is undefined.\<close>

record FTPConfig =
  host :: string
  port :: nat
  remotePath :: string
  uploadOnSave :: bool
  watcher :: WatcherConfig
  ignore :: "string list option"

record ConnectionStatus =
  connected :: bool
  connecting :: bool
  error :: "string option"
  lastConnected :: "nat option"
  status_host :: "string option"

record UploadTask =
  localPath :: string
  task_remotePath :: string
  retries :: nat
  timestamp :: nat

subsection \<open>TreeSyncEngine: the per-file decision of \<^verbatim>\<open>_recursiveSync\<close>\<close>

text \<open>
  JavaScript values that the comparison reads. A number is \<open>NaN\<close> or an integer here
  (sizes come from \<^verbatim>\<open>parseInt\<close>); a \<^verbatim>\<open>Date\<close> is invalid or holds an integer time in
  milliseconds. \<^verbatim>\<open>new Date(x)\<close> is invalid for an undefined \<open>x\<close> and for a time beyond
  8.64e15 ms on either side of the epoch; \<^verbatim>\<open>toISOString()\<close> of an invalid date throws
  \<^verbatim>\<open>RangeError\<close>.
\<close>

datatype JsNumber = NaN | Num int

datatype JsDate = InvalidDate | ValidDate int

definition validTime :: "rat \<Rightarrow> bool" where
  "validTime ms = (\<bar>ms\<bar> \<le> 8640000000000000)"

text \<open>
  A remote entry as the transport lists it (\<^verbatim>\<open>FileInfo\<close>), and the entry that
  \<^verbatim>\<open>_recursiveSync\<close> stores in \<^verbatim>\<open>localItemStats\<close> for a local item. The local
  \<^verbatim>\<open>mtimeMs\<close> may have a fraction of a millisecond. Arithmetic is exact.
\<close>

record FileInfo =
  name :: string
  isDirectory :: bool
  isFile :: bool
  size :: "JsNumber option"
  modifiedAt :: "JsDate option"

record LocalStat =
  stat_path :: string
  stat_isDirectory :: bool
  mtimeMs :: rat
  stat_size :: nat

text \<open>
  \<^verbatim>\<open>localItemStats\<close> is a plain object used as a table from names to entries. Assigning
  under the name \<^verbatim>\<open>__proto__\<close> replaces the prototype of the object instead of adding a
  key. Reading a name that is not a key goes to the prototype: to the entry assigned
  under \<^verbatim>\<open>__proto__\<close>, if any, whose four fields are then found under their names, and
  from there to \<^verbatim>\<open>Object.prototype\<close>, whose members are functions. What is read is
  undefined or falsy (\<open>NoEntry\<close>), an entry, or another truthy thing (\<open>Inherited\<close>)
  on which \<^verbatim>\<open>isDirectory\<close>, \<^verbatim>\<open>mtimeMs\<close> and \<^verbatim>\<open>size\<close> are undefined.
\<close>

record LocalItemStats =
  own :: "(string \<times> LocalStat) list"
  prototype :: "LocalStat option"

datatype LocalLookup = NoEntry | Entry LocalStat | Inherited

definition emptyLocalItemStats :: LocalItemStats where
  "emptyLocalItemStats = \<lparr>own = [], prototype = None\<rparr>"

definition objectPrototypeNames :: "string list" where
  "objectPrototypeNames =
     [''constructor'', ''__defineGetter__'', ''__defineSetter__'', ''hasOwnProperty'',
      ''__lookupGetter__'', ''__lookupSetter__'', ''isPrototypeOf'',
      ''propertyIsEnumerable'', ''toString'', ''valueOf'', ''toLocaleString'']"


text \<open>\<^verbatim>\<open>localItemStats[remoteItem.name]\<close>\<close>

definition getLocalItem :: "LocalItemStats \<Rightarrow> string \<Rightarrow> LocalLookup" where
  "getLocalItem tbl n =
     (if n = ''__proto__'' then
        (case prototype tbl of None \<Rightarrow> Inherited | Some st \<Rightarrow> Entry st)
      else (case map_of (own tbl) n of
        Some st \<Rightarrow> Entry st
      | None \<Rightarrow>
          (case prototype tbl of
             None \<Rightarrow> if n \<in> set objectPrototypeNames then Inherited else NoEntry
           | Some p \<Rightarrow>
               if n = ''path'' then (if stat_path p = [] then NoEntry else Inherited)
               else if n = ''isDirectory''
               then (if stat_isDirectory p then Inherited else NoEntry)
               else if n = ''mtimeMs'' then (if mtimeMs p = 0 then NoEntry else Inherited)
               else if n = ''size'' then (if stat_size p = 0 then NoEntry else Inherited)
               else if n \<in> set objectPrototypeNames then Inherited else NoEntry)))"

datatype DownloadReason =
  LocalFileMissing | RemoteMtimeMissing | RemoteFileNewer | FileSizesDiffer

datatype SyncDecision = skip | createLocalDir | downloadFile DownloadReason

text \<open>
  The exception that the log line of the comparison (line 524) throws when one of the two
  dates it prints is invalid. Nothing catches it inside \<^verbatim>\<open>_recursiveSync\<close>: the sync
  ends there.
\<close>

datatype SyncError = RangeError

definition timeTolerance :: rat where
  "timeTolerance = 2000"

text \<open>
  The branch \<^verbatim>\<open>else if (remoteItem.isFile)\<close> of the loop over the remote items
  (lines 498--537), for the remote item and what \<^verbatim>\<open>localItemStats[remoteItem.name]\<close>
  gave: \<open>Inr (downloadFile r)\<close> when the code leaves \<^verbatim>\<open>shouldDownload\<close> true with
  reason \<open>r\<close>, \<open>Inr skip\<close> when it leaves it false or takes the \<^verbatim>\<open>continue\<close> of
  the name collision, \<open>Inl RangeError\<close> when the log line throws.
\<close>

definition fileDecision :: "FileInfo \<Rightarrow> LocalLookup \<Rightarrow> SyncError + SyncDecision" where
  "fileDecision remoteItem localStats =
     (case localStats of
        NoEntry \<Rightarrow> Inr (downloadFile LocalFileMissing)
      | Inherited \<Rightarrow>
          (case modifiedAt remoteItem of
             None \<Rightarrow> Inr (downloadFile RemoteMtimeMissing)
           | Some remoteMtime \<Rightarrow> Inl RangeError)
      | Entry l \<Rightarrow>
          if stat_isDirectory l then Inr skip
          else (case modifiedAt remoteItem of
                  None \<Rightarrow> Inr (downloadFile RemoteMtimeMissing)
                | Some InvalidDate \<Rightarrow> Inl RangeError
                | Some (ValidDate remoteMtimeMs) \<Rightarrow>
                    if \<not> validTime (mtimeMs l) then Inl RangeError
                    else if of_int remoteMtimeMs > mtimeMs l + timeTolerance
                    then Inr (downloadFile RemoteFileNewer)
                    else if size remoteItem \<noteq> None
                            \<and> size remoteItem \<noteq> Some (Num (int (stat_size l)))
                    then Inr (downloadFile FileSizesDiffer)
                    else Inr skip))"


subsection \<open>JavaScript strings\<close>

text \<open>
  Strings are lists of characters; the paths and patterns considered are ASCII.
  \<open>startsWith s p\<close>, \<open>endsWith s p\<close> and \<open>str_includes s p\<close> are the methods
  \<^verbatim>\<open>s.startsWith(p)\<close>, \<^verbatim>\<open>s.endsWith(p)\<close> and \<^verbatim>\<open>s.includes(p)\<close>.
\<close>

fun startsWith :: "string \<Rightarrow> string \<Rightarrow> bool" where
  "startsWith s [] = True"
| "startsWith [] (c # p) = False"
| "startsWith (x # s) (c # p) = (x = c \<and> startsWith s p)"

definition endsWith :: "string \<Rightarrow> string \<Rightarrow> bool" where
  "endsWith s p = startsWith (rev s) (rev p)"

fun str_includes :: "string \<Rightarrow> string \<Rightarrow> bool" where
  "str_includes [] p = (p = [])"
| "str_includes (x # s) p = (startsWith (x # s) p \<or> str_includes s p)"

definition backslash :: char where
  "backslash = CHR 0x5C"

text \<open>\<^verbatim>\<open>s.replace(/\\/g, '/')\<close>\<close>

definition backslashesToSlashes :: "string \<Rightarrow> string" where
  "backslashesToSlashes s = map (\<lambda>c. if c = backslash then CHR ''/'' else c) s"

text \<open>Decimal notation of a number, as a template string prints it.\<close>

fun showNat :: "nat \<Rightarrow> string" where
  "showNat n =
     (if n < 10 then [''0123456789'' ! n]
      else showNat (n div 10) @ [''0123456789'' ! (n mod 10)])"

declare showNat.simps [simp del]

subsection \<open>The environment of the extension\<close>

text \<open>
  What the sources take from outside the repository: the first workspace folder of the
  editor (\<^verbatim>\<open>PathUtils.getWorkspaceRoot()\<close>, undefined when no folder is open), four
  functions of Node's \<^verbatim>\<open>path\<close> module, and the constructor \<^verbatim>\<open>new RegExp(src)\<close>, which
  throws (\<open>None\<close>) or gives an object whose method \<^verbatim>\<open>test\<close> is the function returned.
\<close>

record Env =
  getWorkspaceRoot :: "string option"
  path_basename :: "string \<Rightarrow> string"
  path_relative :: "string \<Rightarrow> string \<Rightarrow> string"
  posix_join :: "string \<Rightarrow> string \<Rightarrow> string"
  posix_dirname :: "string \<Rightarrow> string"
  RegExp_new :: "string \<Rightarrow> (string \<Rightarrow> bool) option"

subsection \<open>PathUtils\<close>

definition toRemotePath :: "Env \<Rightarrow> string \<Rightarrow> string \<Rightarrow> string \<Rightarrow> string" where
  "toRemotePath env local workspaceRoot remoteRoot =
     (let relativePath = path_relative env workspaceRoot local;
          normalizedPath = backslashesToSlashes relativePath
      in posix_join env remoteRoot normalizedPath)"

definition isInWorkspace :: "Env \<Rightarrow> string \<Rightarrow> bool" where
  "isInWorkspace env filePath =
     (case getWorkspaceRoot env of
        None \<Rightarrow> False
      | Some workspaceRoot \<Rightarrow>
          if workspaceRoot = [] then False else startsWith filePath workspaceRoot)"

definition getDirectoryPath :: "Env \<Rightarrow> string \<Rightarrow> string" where
  "getDirectoryPath env filePath = posix_dirname env (backslashesToSlashes filePath)"

definition defaultIgnores :: "string list" where
  "defaultIgnores =
     [''.git'', ''.vscode'', ''node_modules'', ''.DS_Store'', ''Thumbs.db'', ''.env'',
      ''*.log'', ''smartftp.json'']"

text \<open>
  The three replacements that turn a glob into the source of a regular expression:
  \<^verbatim>\<open>.replace(/\./g, '\\.')\<close>, \<^verbatim>\<open>.replace(/\*\*/g, '.+')\<close> and
  \<^verbatim>\<open>.replace(/\*/g, '[^/]*')\<close>, each on the result of the one before.
\<close>

definition escapeDots :: "string \<Rightarrow> string" where
  "escapeDots p = concat (map (\<lambda>c. if c = CHR ''.'' then [backslash, CHR ''.''] else [c]) p)"

fun replaceDoubleStars :: "string \<Rightarrow> string" where
  "replaceDoubleStars (a # b # p) =
     (if a = CHR ''*'' \<and> b = CHR ''*'' then ''.+'' @ replaceDoubleStars p
      else a # replaceDoubleStars (b # p))"
| "replaceDoubleStars p = p"

definition replaceStars :: "string \<Rightarrow> string" where
  "replaceStars p = concat (map (\<lambda>c. if c = CHR ''*'' then ''[^/]*'' else [c]) p)"

definition regexPattern :: "string \<Rightarrow> string" where
  "regexPattern pattern = replaceStars (replaceDoubleStars (escapeDots pattern))"

text \<open>
  The callback of \<^verbatim>\<open>allPatterns.some(...)\<close> in \<^verbatim>\<open>shouldIgnoreFile\<close>. A pattern
  with a \<^verbatim>\<open>*\<close> is decided by the regular expression alone; an exception of the
  constructor is caught and gives false.
\<close>

definition matchesPattern :: "Env \<Rightarrow> string \<Rightarrow> string \<Rightarrow> string \<Rightarrow> bool" where
  "matchesPattern env fileName relativePath pattern =
     (if pattern = [] then False
      else if fileName = pattern \<or> relativePath = pattern then True
      else if str_includes pattern ''*'' then
        (case RegExp_new env (''^'' @ regexPattern pattern @ ''$'') of
           None \<Rightarrow> False
         | Some test \<Rightarrow> test fileName \<or> test relativePath)
      else if endsWith pattern ''/'' \<and> startsWith (relativePath @ ''/'') pattern then True
      else False)"

text \<open>
  \<^verbatim>\<open>shouldIgnoreFile(filePath, ignorePatterns = [])\<close>; the second argument is \<open>None\<close>
  when the caller leaves it out or passes undefined. An empty workspace root is falsy, as
  an undefined one.
\<close>

definition shouldIgnoreFile :: "Env \<Rightarrow> string \<Rightarrow> string list option \<Rightarrow> bool" where
  "shouldIgnoreFile env filePath ignorePatterns =
     (let fileName = path_basename env filePath;
          allPatterns = defaultIgnores @ (case ignorePatterns of None \<Rightarrow> [] | Some ps \<Rightarrow> ps);
          relativePath =
            (case getWorkspaceRoot env of
               None \<Rightarrow> fileName
             | Some workspaceRoot \<Rightarrow>
                 if workspaceRoot = [] then fileName
                 else backslashesToSlashes (path_relative env workspaceRoot filePath))
      in list_ex (matchesPattern env fileName relativePath) allPatterns)"

subsection \<open>A POSIX instance of the environment\<close>

text \<open>
  For evaluation on concrete paths: Node's \<^verbatim>\<open>path\<close> functions on POSIX for absolute
  paths, and regular expressions restricted to the sources that \<open>regexPattern\<close> produces
  from globs without other metacharacters. Outside that fragment \<open>posix_RegExp\<close>
  answers \<open>None\<close>; the evaluations below stay inside it.
\<close>

fun splitOn :: "char \<Rightarrow> string \<Rightarrow> string list" where
  "splitOn d [] = [[]]"
| "splitOn d (c # cs) =
     (if c = d then [] # splitOn d cs
      else (case splitOn d cs of [] \<Rightarrow> [[c]] | x # xs \<Rightarrow> (c # x) # xs))"

fun joinWith :: "char \<Rightarrow> string list \<Rightarrow> string" where
  "joinWith d [] = []"
| "joinWith d [x] = x"
| "joinWith d (x # y # ys) = x @ d # joinWith d (y # ys)"

text \<open>Segments of a path after \<^verbatim>\<open>.\<close>, \<^verbatim>\<open>..\<close> and empty segments are resolved.\<close>

fun resolveSegments :: "string list \<Rightarrow> string list \<Rightarrow> string list" where
  "resolveSegments acc [] = rev acc"
| "resolveSegments acc (s # ss) =
     (if s = [] \<or> s = ''.'' then resolveSegments acc ss
      else if s = ''..'' then resolveSegments (tl acc) ss
      else resolveSegments (s # acc) ss)"

fun dropCommon :: "string list \<Rightarrow> string list \<Rightarrow> string list \<times> string list" where
  "dropCommon (x # xs) (y # ys) = (if x = y then dropCommon xs ys else (x # xs, y # ys))"
| "dropCommon xs ys = (xs, ys)"

definition posix_relative_abs :: "string \<Rightarrow> string \<Rightarrow> string" where
  "posix_relative_abs from to =
     (case dropCommon (resolveSegments [] (splitOn CHR ''/'' from))
                      (resolveSegments [] (splitOn CHR ''/'' to)) of
        (f, t) \<Rightarrow> joinWith CHR ''/'' (replicate (length f) ''..'' @ t))"

definition posix_basename_impl :: "string \<Rightarrow> string" where
  "posix_basename_impl p =
     rev (takeWhile (\<lambda>c. c \<noteq> CHR ''/'') (dropWhile (\<lambda>c. c = CHR ''/'') (rev p)))"

text \<open>
  \<^verbatim>\<open>path.posix.dirname\<close>: from the end of the path, trailing slashes and then the last
  segment are passed over; the directory ends before the slash found there.
\<close>

definition posix_dirname_impl :: "string \<Rightarrow> string" where
  "posix_dirname_impl p =
     (if p = [] then ''.''
      else
        (let hasRoot = (hd p = CHR ''/'');
             upToEnd = dropWhile (\<lambda>c. c \<noteq> CHR ''/'')
                         (dropWhile (\<lambda>c. c = CHR ''/'') (rev (tl p)))
         in if upToEnd = [] then (if hasRoot then ''/'' else ''.'')
            else if hasRoot \<and> length upToEnd = 1 then ''//''
            else hd p # rev (tl upToEnd)))"

definition posix_join_abs :: "string \<Rightarrow> string \<Rightarrow> string" where
  "posix_join_abs a b =
     CHR ''/'' # joinWith CHR ''/''
       (resolveSegments [] (splitOn CHR ''/'' a @ splitOn CHR ''/'' b))"

datatype RegexAtom = Lit char | AnyPlus | NoSlashStar

definition regexMeta :: "char \<Rightarrow> bool" where
  "regexMeta c = (c \<in> set ''^$.|?*+()[]{}'' \<or> c = backslash)"

fun parseAtoms :: "string \<Rightarrow> RegexAtom list option" where
  "parseAtoms [] = Some []"
| "parseAtoms (c # cs) =
     (if c = backslash then
        (case cs of
           [] \<Rightarrow> None
         | d # ds \<Rightarrow> if d = CHR ''.'' then map_option ((#) (Lit d)) (parseAtoms ds) else None)
      else if c = CHR ''.'' then
        (case cs of
           [] \<Rightarrow> None
         | d # ds \<Rightarrow> if d = CHR ''+'' then map_option ((#) AnyPlus) (parseAtoms ds) else None)
      else if c = CHR ''['' then
        (if startsWith cs ''^/]*''
         then map_option ((#) NoSlashStar) (parseAtoms (drop 4 cs)) else None)
      else if regexMeta c then None
      else map_option ((#) (Lit c)) (parseAtoms cs))"

text \<open>
  Whether the whole string matches the atoms: \<^verbatim>\<open>\.\<close> and ordinary characters match
  themselves, \<^verbatim>\<open>.+\<close> one or more characters other than line terminators, \<^verbatim>\<open>[^/]*\<close>
  any number of characters other than the slash.
\<close>

fun matchAtoms :: "RegexAtom list \<Rightarrow> string \<Rightarrow> bool" where
  "matchAtoms [] s = (s = [])"
| "matchAtoms (Lit c # as) [] = False"
| "matchAtoms (Lit c # as) (x # s) = (x = c \<and> matchAtoms as s)"
| "matchAtoms (AnyPlus # as) [] = False"
| "matchAtoms (AnyPlus # as) (x # s) =
     (x \<noteq> CHR 0x0A \<and> x \<noteq> CHR 0x0D \<and> (matchAtoms as s \<or> matchAtoms (AnyPlus # as) s))"
| "matchAtoms (NoSlashStar # as) [] = matchAtoms as []"
| "matchAtoms (NoSlashStar # as) (x # s) =
     (matchAtoms as (x # s) \<or> (x \<noteq> CHR ''/'' \<and> matchAtoms (NoSlashStar # as) s))"

definition posix_RegExp :: "string \<Rightarrow> (string \<Rightarrow> bool) option" where
  "posix_RegExp src =
     (case src of
        [] \<Rightarrow> None
      | c # rest \<Rightarrow>
          if c = CHR ''^'' \<and> rest \<noteq> [] \<and> last rest = CHR ''$''
          then map_option matchAtoms (parseAtoms (butlast rest))
          else None)"

definition posixEnv :: "string option \<Rightarrow> Env" where
  "posixEnv workspaceRoot =
     \<lparr>getWorkspaceRoot = workspaceRoot,
      path_basename = posix_basename_impl,
      path_relative = posix_relative_abs,
      posix_join = posix_join_abs,
      posix_dirname = posix_dirname_impl,
      RegExp_new = posix_RegExp\<rparr>"


subsection \<open>FTPManager: the state\<close>

text \<open>
  An error thrown by the transport or the file system: \<open>ftpCode\<close> is \<open>Some c\<close> when the
  error is an instance of \<^verbatim>\<open>FTPError\<close> with code \<open>c\<close>. What an awaited call of the
  transport answers is \<open>Resolved\<close> or \<open>Rejected e\<close>.
\<close>

record JsError =
  ftpCode :: "nat option"
  message :: string

datatype Result = Resolved | Rejected JsError

text \<open>Of the transport's client object only the flag \<^verbatim>\<open>closed\<close> is read.\<close>

datatype FTPClient = FTPClient (closed: bool)

datatype StatusCall =
    updateConnectionStatus ConnectionStatus
  | showUploadProgress string
  | showUploadSuccess string
  | showUploadError string string
  | showSyncProgress string
  | showSyncSuccess string
  | showSyncError string string
  | showDownloadProgress string
  | showDownloadSuccess string
  | showDownloadError string string
  | updateStatusBar

text \<open>
  Where the one activation of \<^verbatim>\<open>processUploadQueue\<close> that can exist is suspended,
  with its local variable \<^verbatim>\<open>task\<close>: at \<^verbatim>\<open>await this.client.ensureDir\<close>, at
  \<^verbatim>\<open>await this.client.uploadFrom\<close>, or at the delay before a retry.
\<close>

datatype DrainPC =
  NotDraining | AwaitEnsureDir UploadTask | AwaitUpload UploadTask | AwaitRetryDelay

text \<open>
  The fields of the class, followed by what the model adds: \<open>drainPC\<close>, the timers set
  with \<^verbatim>\<open>setTimeout\<close> by \<^verbatim>\<open>scheduleReconnect\<close> that have neither fired nor been
  cleared (\<open>pendingTimeouts\<close>, each a fresh number from \<open>nextTimeout\<close>), and the calls made
  to the status manager.
\<close>

record FTPManager =
  client :: "FTPClient option"
  config :: "FTPConfig option"
  connectionStatus :: ConnectionStatus
  uploadQueue :: "UploadTask list"
  isProcessingQueue :: bool
  reconnectTimer :: "nat option"
  isSyncingOrDownloading :: bool
  drainPC :: DrainPC
  pendingTimeouts :: "nat list"
  nextTimeout :: nat
  status_log :: "StatusCall list"

definition maxRetries :: nat where
  "maxRetries = 3"

definition retryDelay :: nat where
  "retryDelay = 5000"

definition initialStatus :: ConnectionStatus where
  "initialStatus =
     \<lparr>connected = False, connecting = False, error = None, lastConnected = None,
      status_host = None\<rparr>"

definition initialManager :: FTPManager where
  "initialManager =
     \<lparr>client = None, config = None, connectionStatus = initialStatus, uploadQueue = [],
      isProcessingQueue = False, reconnectTimer = None, isSyncingOrDownloading = False,
      drainPC = NotDraining, pendingTimeouts = [], nextTimeout = 0, status_log = []\<rparr>"

definition notify :: "StatusCall \<Rightarrow> FTPManager \<Rightarrow> FTPManager" where
  "notify c s = s\<lparr>status_log := status_log s @ [c]\<rparr>"

definition isConnected :: "FTPManager \<Rightarrow> bool" where
  "isConnected s =
     (connected (connectionStatus s)
      \<and> (case client s of None \<Rightarrow> False | Some c \<Rightarrow> \<not> closed c))"

text \<open>The truth value of \<^verbatim>\<open>this.client?.closed\<close>: undefined, so falsy, without a client.\<close>

definition clientClosed :: "FTPManager \<Rightarrow> bool" where
  "clientClosed s = (case client s of None \<Rightarrow> False | Some c \<Rightarrow> closed c)"

text \<open>The truth value of \<^verbatim>\<open>this.connectionStatus.error\<close>: the empty string is falsy.\<close>

definition errorSet :: "ConnectionStatus \<Rightarrow> bool" where
  "errorSet st = (case error st of None \<Rightarrow> False | Some m \<Rightarrow> m \<noteq> [])"

subsection \<open>FTPManager: the reconnect timer\<close>

text \<open>
  \<^verbatim>\<open>if (this.reconnectTimer) { clearTimeout(this.reconnectTimer); this.reconnectTimer = null; }\<close>
  at the head of \<^verbatim>\<open>connect\<close> (after its guards) and of \<^verbatim>\<open>disconnect\<close>.
\<close>

definition clearReconnectTimer :: "FTPManager \<Rightarrow> FTPManager" where
  "clearReconnectTimer s =
     (case reconnectTimer s of
        None \<Rightarrow> s
      | Some t \<Rightarrow> s\<lparr>pendingTimeouts := removeAll t (pendingTimeouts s),
                     reconnectTimer := None\<rparr>)"

definition scheduleReconnect :: "FTPManager \<Rightarrow> FTPManager" where
  "scheduleReconnect s =
     (if connecting (connectionStatus s) \<or> reconnectTimer s \<noteq> None then s
      else if client s = None \<and> \<not> errorSet (connectionStatus s) then s
      else s\<lparr>reconnectTimer := Some (nextTimeout s),
              pendingTimeouts := pendingTimeouts s @ [nextTimeout s],
              nextTimeout := Suc (nextTimeout s)\<rparr>)"

subsection \<open>FTPManager: error handling\<close>

definition connectionLostCode :: "JsError \<Rightarrow> bool" where
  "connectionLostCode e =
     (case ftpCode e of None \<Rightarrow> False | Some c \<Rightarrow> c = 421 \<or> c = 426 \<or> c = 530)"

definition networkErrorMessage :: "JsError \<Rightarrow> bool" where
  "networkErrorMessage e =
     (str_includes (message e) ''ECONNRESET'' \<or> str_includes (message e) ''timeout''
      \<or> str_includes (message e) ''Not connected''
      \<or> str_includes (message e) ''Connection closed'')"

text \<open>
  The status manager receives a copy of the status with an error text; the field
  \<^verbatim>\<open>this.connectionStatus.error\<close> itself is not assigned here.
\<close>

definition handleFTPError :: "JsError \<Rightarrow> string \<Rightarrow> FTPManager \<Rightarrow> FTPManager" where
  "handleFTPError e operationContext s =
     (if connectionLostCode e then
        (let s1 = s\<lparr>connectionStatus := (connectionStatus s)\<lparr>connected := False\<rparr>\<rparr>;
             s2 = notify (updateConnectionStatus ((connectionStatus s1)
                    \<lparr>error := Some (''Connection lost during '' @ operationContext
                                     @ '' (Code '' @ showNat (the (ftpCode e)) @ '')'')\<rparr>)) s1
         in scheduleReconnect s2)
      else if networkErrorMessage e then
        (let s1 = s\<lparr>connectionStatus := (connectionStatus s)\<lparr>connected := False\<rparr>\<rparr>;
             s2 = notify (updateConnectionStatus ((connectionStatus s1)
                    \<lparr>error := Some (''Connection lost during '' @ operationContext)\<rparr>)) s1
         in scheduleReconnect s2)
      else s)"

text \<open>
  The classes of section 4.4 of the specification, as \<^verbatim>\<open>handleFTPError\<close> draws them:
  an error is transient when one of its two tests holds, and fatal otherwise (the benign
  code 550 is set apart by the callers that delete).
\<close>

definition transient :: "JsError \<Rightarrow> bool" where
  "transient e = (connectionLostCode e \<or> networkErrorMessage e)"

definition fatal :: "JsError \<Rightarrow> bool" where
  "fatal e = (\<not> transient e)"

subsection \<open>FTPManager: connecting\<close>

text \<open>
  \<^verbatim>\<open>connect()\<close> up to \<^verbatim>\<open>await this.client.access(...)\<close>. The result is \<open>Some b\<close>
  when the method returns \<open>b\<close> at once and \<open>None\<close> when it is suspended at the
  \<^verbatim>\<open>await\<close>. A client that has not connected yet reports \<^verbatim>\<open>closed\<close>.
\<close>

definition connect_begin :: "FTPManager \<Rightarrow> bool option \<times> FTPManager" where
  "connect_begin s =
     (if config s = None then (Some False, s)
      else if connecting (connectionStatus s) then (Some False, s)
      else if isConnected s then (Some True, s)
      else
        (let s1 = clearReconnectTimer s;
             s2 = s1\<lparr>connectionStatus := initialStatus\<lparr>connecting := True\<rparr>\<rparr>;
             s3 = notify (updateConnectionStatus (connectionStatus s2)) s2
         in (None, s3\<lparr>client := Some (FTPClient True)\<rparr>)))"

text \<open>The \<^verbatim>\<open>catch\<close> block of \<^verbatim>\<open>connect\<close>, with the message of the error caught.\<close>

definition connect_catch :: "string \<Rightarrow> FTPManager \<Rightarrow> bool option \<times> FTPManager" where
  "connect_catch msg s =
     (let s1 = s\<lparr>connectionStatus := initialStatus\<lparr>error := Some msg\<rparr>\<rparr>;
          s2 = notify (updateConnectionStatus (connectionStatus s1)) s1;
          s3 = s2\<lparr>client := None\<rparr>
      in (Some False, scheduleReconnect s3))"

text \<open>The message of the \<^verbatim>\<open>TypeError\<close> thrown on reading a property of \<^verbatim>\<open>null\<close>.\<close>

definition typeErrorMessage :: string where
  "typeErrorMessage = ''Cannot read properties of null''"

text \<open>
  After \<^verbatim>\<open>access\<close> has resolved, up to \<^verbatim>\<open>await this.client.list(...)\<close>. Meanwhile
  \<^verbatim>\<open>disconnect\<close> or \<^verbatim>\<open>setConfig(null)\<close> may have emptied \<^verbatim>\<open>this.client\<close> or
  \<^verbatim>\<open>this.config\<close>; reading through them throws inside the \<^verbatim>\<open>try\<close>.
\<close>

definition connect_afterAccess :: "FTPManager \<Rightarrow> bool option \<times> FTPManager" where
  "connect_afterAccess s =
     (case client s of
        None \<Rightarrow> connect_catch typeErrorMessage s
      | Some c \<Rightarrow>
          if closed c then connect_catch ''Connection closed immediately after access.'' s
          else if config s = None then connect_catch typeErrorMessage s
          else (None, s))"


subsection \<open>FTPManager: the upload queue\<close>

text \<open>
  Leaving the loop of \<^verbatim>\<open>processUploadQueue\<close> at its end or by \<^verbatim>\<open>break\<close>. The value
  returned by the method (\<^verbatim>\<open>overallSuccess\<close>) is not read by any caller and is not kept.
\<close>

definition drain_exit :: "FTPManager \<Rightarrow> FTPManager" where
  "drain_exit s =
     (let s1 = s\<lparr>isProcessingQueue := False, drainPC := NotDraining\<rparr>
      in if uploadQueue s1 = [] then notify updateStatusBar s1 else s1)"

text \<open>
  The head of the \<^verbatim>\<open>while\<close> loop up to the next \<^verbatim>\<open>await\<close>. The connection is live
  when \<^verbatim>\<open>ensureRemoteDirectory\<close> is entered, so its \<^verbatim>\<open>checkConnection\<close> changes
  nothing; it calls \<^verbatim>\<open>ensureDir\<close> unless the directory is empty, \<^verbatim>\<open>/\<close> or \<^verbatim>\<open>.\<close>
\<close>

definition drain_loopHead :: "Env \<Rightarrow> FTPManager \<Rightarrow> FTPManager" where
  "drain_loopHead env s =
     (case uploadQueue s of
        [] \<Rightarrow> drain_exit s
      | task # rest \<Rightarrow>
          if \<not> isConnected s
          then snd (connect_begin (s\<lparr>isProcessingQueue := False, drainPC := NotDraining\<rparr>))
          else
            (let fileName = path_basename env (localPath task);
                 s1 = notify (showUploadProgress fileName) (s\<lparr>uploadQueue := rest\<rparr>);
                 remoteDir = getDirectoryPath env (task_remotePath task)
             in if client s1 = None \<or> remoteDir = [] \<or> remoteDir = ''/'' \<or> remoteDir = ''.''
                then s1\<lparr>drainPC := AwaitUpload task\<rparr>
                else s1\<lparr>drainPC := AwaitEnsureDir task\<rparr>))"

text \<open>\<^verbatim>\<open>processUploadQueue()\<close> from its call to the first \<^verbatim>\<open>await\<close>.\<close>

definition processUploadQueue_begin :: "Env \<Rightarrow> FTPManager \<Rightarrow> FTPManager" where
  "processUploadQueue_begin env s =
     (if isProcessingQueue s \<or> uploadQueue s = [] then s
      else if \<not> isConnected s then snd (connect_begin s)
      else drain_loopHead env (s\<lparr>isProcessingQueue := True\<rparr>))"

text \<open>
  After the \<^verbatim>\<open>catch\<close> block, and after the delay of a retry:
  \<^verbatim>\<open>if (this.client?.closed) break;\<close> and otherwise the next round of the loop.
\<close>

definition drain_afterCatch :: "Env \<Rightarrow> FTPManager \<Rightarrow> FTPManager" where
  "drain_afterCatch env s = (if clientClosed s then drain_exit s else drain_loopHead env s)"

text \<open>
  The \<^verbatim>\<open>catch\<close> block of the loop (lines 294--308) for the task in flight and the
  error caught, up to the delay of the retry or, without retry, to the next
  \<^verbatim>\<open>await\<close> of the loop.
\<close>

definition drain_catch :: "Env \<Rightarrow> UploadTask \<Rightarrow> JsError \<Rightarrow> FTPManager \<Rightarrow> FTPManager" where
  "drain_catch env task e s =
     (let task' = task\<lparr>retries := retries task + 1\<rparr>;
          fileName = path_basename env (localPath task');
          s1 = handleFTPError e
                 (''Upload attempt '' @ showNat (retries task') @ '' for '' @ fileName) s
      in if retries task' < maxRetries \<and> \<not> clientClosed s1
         then s1\<lparr>uploadQueue := task' # uploadQueue s1, drainPC := AwaitRetryDelay\<rparr>
         else drain_afterCatch env (notify (showUploadError fileName (message e)) s1))"

text \<open>\<^verbatim>\<open>new Error('Connection lost before upload')\<close>\<close>

definition connectionLostBeforeUpload :: JsError where
  "connectionLostBeforeUpload = \<lparr>ftpCode = None, message = ''Connection lost before upload''\<rparr>"

text \<open>The activation resumes when \<^verbatim>\<open>ensureDir\<close> has answered.\<close>

definition drain_afterEnsureDir :: "Env \<Rightarrow> Result \<Rightarrow> FTPManager \<Rightarrow> FTPManager" where
  "drain_afterEnsureDir env r s =
     (case drainPC s of
        AwaitEnsureDir task \<Rightarrow>
          (case r of
             Resolved \<Rightarrow>
               if \<not> isConnected s
               then drain_catch env task connectionLostBeforeUpload s
               else s\<lparr>drainPC := AwaitUpload task\<rparr>
           | Rejected e \<Rightarrow>
               drain_catch env task e
                 (handleFTPError e
                    (''ensure remote directory ''
                       @ getDirectoryPath env (task_remotePath task)) s))
      | _ \<Rightarrow> s)"

text \<open>The activation resumes when \<^verbatim>\<open>uploadFrom\<close> has answered.\<close>

definition drain_afterUpload :: "Env \<Rightarrow> Result \<Rightarrow> FTPManager \<Rightarrow> FTPManager" where
  "drain_afterUpload env r s =
     (case drainPC s of
        AwaitUpload task \<Rightarrow>
          (case r of
             Resolved \<Rightarrow>
               drain_loopHead env
                 (notify (showUploadSuccess (path_basename env (localPath task))) s)
           | Rejected e \<Rightarrow> drain_catch env task e s)
      | _ \<Rightarrow> s)"

definition drain_afterRetryDelay :: "Env \<Rightarrow> FTPManager \<Rightarrow> FTPManager" where
  "drain_afterRetryDelay env s =
     (case drainPC s of AwaitRetryDelay \<Rightarrow> drain_afterCatch env s | _ \<Rightarrow> s)"

text \<open>
  \<^verbatim>\<open>uploadFile(localPath, remotePath?)\<close>; \<open>existsSync\<close> is the file system at the time
  of the call and \<open>now\<close> the clock. The method has no \<^verbatim>\<open>await\<close>: the calls of
  \<^verbatim>\<open>connect\<close> and \<^verbatim>\<open>processUploadQueue\<close> run to their first \<^verbatim>\<open>await\<close>.
\<close>

definition uploadFile ::
  "Env \<Rightarrow> (string \<Rightarrow> bool) \<Rightarrow> nat \<Rightarrow> string \<Rightarrow> string option \<Rightarrow> FTPManager
     \<Rightarrow> bool \<times> FTPManager" where
  "uploadFile env existsSync now local remote s =
     (if isSyncingOrDownloading s then (True, s)
      else (case config s of
        None \<Rightarrow> (False, s)
      | Some cfg \<Rightarrow>
          if \<not> existsSync local then (False, s)
          else
            (case (if remote = None \<or> remote = Some []
                   then (case getWorkspaceRoot env of
                           None \<Rightarrow> None
                         | Some workspaceRoot \<Rightarrow>
                             if workspaceRoot = [] then None
                             else Some (toRemotePath env local workspaceRoot (remotePath cfg)))
                   else remote) of
               None \<Rightarrow> (False, s)
             | Some remote' \<Rightarrow>
                 if shouldIgnoreFile env local (ignore cfg) then (True, s)
                 else
                   (let uploadTask = \<lparr>localPath = local, task_remotePath = remote',
                                      retries = 0, timestamp = now\<rparr>;
                        s1 = s\<lparr>uploadQueue := uploadQueue s @ [uploadTask]\<rparr>
                    in if \<not> isConnected s1 then (True, snd (connect_begin s1))
                       else (True, processUploadQueue_begin env s1)))))"

subsection \<open>FTPManager: connecting, continued\<close>

text \<open>After \<^verbatim>\<open>list\<close> has resolved: the success path of \<^verbatim>\<open>connect\<close>.\<close>

definition connect_afterList :: "Env \<Rightarrow> nat \<Rightarrow> FTPManager \<Rightarrow> bool option \<times> FTPManager" where
  "connect_afterList env now s =
     (case config s of
        None \<Rightarrow> connect_catch typeErrorMessage s
      | Some cfg \<Rightarrow>
          (let s1 = s\<lparr>connectionStatus :=
                       \<lparr>connected = True, connecting = False, error = None,
                        lastConnected = Some now, status_host = Some (host cfg)\<rparr>\<rparr>;
               s2 = notify (updateConnectionStatus (connectionStatus s1)) s1
           in (Some True, processUploadQueue_begin env s2)))"

definition disconnect :: "FTPManager \<Rightarrow> FTPManager" where
  "disconnect s =
     (let s1 = clearReconnectTimer s;
          s2 = s1\<lparr>client := None\<rparr>
      in if connected (connectionStatus s2) \<or> connecting (connectionStatus s2)
         then notify (updateConnectionStatus initialStatus)
                (s2\<lparr>connectionStatus := initialStatus\<rparr>)
         else s2)"

definition setConfig :: "FTPConfig option \<Rightarrow> FTPManager \<Rightarrow> FTPManager" where
  "setConfig cfg s =
     (let s1 = s\<lparr>config := cfg\<rparr> in if cfg = None then disconnect s1 else s1)"

text \<open>
  The callback that \<^verbatim>\<open>scheduleReconnect\<close> hands to \<^verbatim>\<open>setTimeout\<close>, run when timer
  \<open>t\<close> fires; a timer that is not pending does not fire.
\<close>

definition reconnectTimerFired :: "nat \<Rightarrow> FTPManager \<Rightarrow> FTPManager" where
  "reconnectTimerFired t s =
     (if t \<notin> set (pendingTimeouts s) then s
      else
        (let s1 = s\<lparr>pendingTimeouts := removeAll t (pendingTimeouts s),
                     reconnectTimer := None\<rparr>
         in if \<not> isConnected s1 \<and> \<not> connecting (connectionStatus s1)
            then snd (connect_begin s1) else s1))"

text \<open>
  \<^verbatim>\<open>checkConnection(operationName)\<close> up to its \<^verbatim>\<open>await this.connect()\<close>: \<open>Some b\<close>
  when the answer \<open>b\<close> is known at once, \<open>None\<close> when the connect is under way.
\<close>

definition checkConnection_begin :: "string \<Rightarrow> FTPManager \<Rightarrow> bool option \<times> FTPManager" where
  "checkConnection_begin operationName s =
     (if \<not> isConnected s then
        (let s1 = s\<lparr>connectionStatus := (connectionStatus s)\<lparr>connected := False\<rparr>\<rparr>;
             s2 = notify (updateConnectionStatus ((connectionStatus s1)
                    \<lparr>error := Some (''Connection lost before '' @ operationName)\<rparr>)) s1
         in connect_begin s2)
      else (Some True, s))"

subsection \<open>FTPManager: deleting\<close>

text \<open>
  \<^verbatim>\<open>deleteFile\<close> once \<^verbatim>\<open>checkConnection\<close> has answered \<open>ok\<close>, up to
  \<^verbatim>\<open>await this.client.remove(remotePath)\<close> (\<open>None\<close>), and its \<^verbatim>\<open>try\<close> and \<^verbatim>\<open>catch\<close>
  once \<^verbatim>\<open>remove\<close> has answered. \<^verbatim>\<open>deleteDirectory\<close> is the same text around
  \<^verbatim>\<open>removeDir\<close>.
\<close>

definition deleteFile_afterCheck :: "bool \<Rightarrow> FTPManager \<Rightarrow> bool option \<times> FTPManager" where
  "deleteFile_afterCheck ok s =
     (if \<not> ok then (Some False, s)
      else if config s = None then (Some False, s)
      else (None, s))"

definition deleteFile_afterRemove ::
  "Env \<Rightarrow> string \<Rightarrow> Result \<Rightarrow> FTPManager \<Rightarrow> bool \<times> FTPManager" where
  "deleteFile_afterRemove env remote r s =
     (case r of
        Resolved \<Rightarrow> (True, s)
      | Rejected e \<Rightarrow>
          if ftpCode e = Some 550 then (True, s)
          else (False, handleFTPError e
                         (''delete remote file '' @ path_basename env remote) s))"

definition deleteDirectory_afterCheck :: "bool \<Rightarrow> FTPManager \<Rightarrow> bool option \<times> FTPManager" where
  "deleteDirectory_afterCheck ok s =
     (if \<not> ok then (Some False, s)
      else if config s = None then (Some False, s)
      else (None, s))"

definition deleteDirectory_afterRemoveDir ::
  "Env \<Rightarrow> string \<Rightarrow> Result \<Rightarrow> FTPManager \<Rightarrow> bool \<times> FTPManager" where
  "deleteDirectory_afterRemoveDir env remote r s =
     (case r of
        Resolved \<Rightarrow> (True, s)
      | Rejected e \<Rightarrow>
          if ftpCode e = Some 550 then (True, s)
          else (False, handleFTPError e
                         (''delete remote directory '' @ path_basename env remote) s))"

text \<open>
  A whole call of \<^verbatim>\<open>deleteFile\<close> on a connection that \<^verbatim>\<open>checkConnection\<close> finds live
  or settles at once, given the answer of \<^verbatim>\<open>remove\<close>; \<open>None\<close> when the call waits for a
  connect under way.
\<close>

definition deleteFile ::
  "Env \<Rightarrow> string \<Rightarrow> Result \<Rightarrow> FTPManager \<Rightarrow> bool option \<times> FTPManager" where
  "deleteFile env remote r s =
     (case checkConnection_begin ''deleteFile'' s of
        (None, s1) \<Rightarrow> (None, s1)
      | (Some ok, s1) \<Rightarrow>
          (case deleteFile_afterCheck ok s1 of
             (Some b, s2) \<Rightarrow> (Some b, s2)
           | (None, s2) \<Rightarrow>
               (case deleteFile_afterRemove env remote r s2 of (b, s3) \<Rightarrow> (Some b, s3))))"

definition deleteDirectory ::
  "Env \<Rightarrow> string \<Rightarrow> Result \<Rightarrow> FTPManager \<Rightarrow> bool option \<times> FTPManager" where
  "deleteDirectory env remote r s =
     (case checkConnection_begin ''deleteDirectory'' s of
        (None, s1) \<Rightarrow> (None, s1)
      | (Some ok, s1) \<Rightarrow>
          (case deleteDirectory_afterCheck ok s1 of
             (Some b, s2) \<Rightarrow> (Some b, s2)
           | (None, s2) \<Rightarrow>
               (case deleteDirectory_afterRemoveDir env remote r s2 of
                  (b, s3) \<Rightarrow> (Some b, s3))))"

subsection \<open>FTPManager: sync and download\<close>

text \<open>
  Of \<^verbatim>\<open>syncServerToLocal\<close> and \<^verbatim>\<open>downloadRemotePath\<close>, what touches the fields of
  the manager: the call up to \<^verbatim>\<open>await this.checkConnection(operation)\<close>, where the method
  is suspended whatever the state of the connection; its resumption once
  \<^verbatim>\<open>checkConnection\<close> has answered \<open>ok\<close>, which raises the flag
  \<^verbatim>\<open>isSyncingOrDownloading\<close>; and the end, whose \<^verbatim>\<open>finally\<close> lowers it (\<open>failure\<close>
  is the error caught, if any). In between, the traversal changes the manager only through
  \<^verbatim>\<open>handleFTPError\<close>.
\<close>

definition syncServerToLocal_afterCheck ::
  "Env \<Rightarrow> string \<Rightarrow> bool \<Rightarrow> FTPManager \<Rightarrow> FTPManager" where
  "syncServerToLocal_afterCheck env localFolderPath ok s =
     (if \<not> ok
      then notify (showSyncError (''Sync failed: '' @ path_basename env localFolderPath)
                     ''Connection failed'') s
      else if config s = None
      then notify (showSyncError (''Sync failed: '' @ path_basename env localFolderPath)
                     ''No configuration'') s
      else notify (showSyncProgress
                     (''Syncing '' @ path_basename env localFolderPath @ ''...''))
             (s\<lparr>isSyncingOrDownloading := True\<rparr>))"

definition syncServerToLocal_begin :: "FTPManager \<Rightarrow> FTPManager" where
  "syncServerToLocal_begin s =
     (if isSyncingOrDownloading s then s
      else snd (checkConnection_begin ''syncServerToLocal'' s))"

definition syncServerToLocal_end ::
  "Env \<Rightarrow> string \<Rightarrow> string option \<Rightarrow> FTPManager \<Rightarrow> FTPManager" where
  "syncServerToLocal_end env localFolderPath failure s =
     (let s1 = (case failure of
                  None \<Rightarrow> notify (showSyncSuccess
                                    (''Synced '' @ path_basename env localFolderPath)) s
                | Some msg \<Rightarrow>
                    notify (showSyncError
                              (''Sync failed: '' @ path_basename env localFolderPath) msg) s)
      in notify updateStatusBar (s1\<lparr>isSyncingOrDownloading := False\<rparr>))"

definition downloadRemotePath_afterCheck ::
  "Env \<Rightarrow> string \<Rightarrow> bool \<Rightarrow> FTPManager \<Rightarrow> FTPManager" where
  "downloadRemotePath_afterCheck env localFolderPath ok s =
     (if \<not> ok
      then notify (showDownloadError
                     (''Download failed: '' @ path_basename env localFolderPath)
                     ''Connection failed'') s
      else if config s = None
      then notify (showDownloadError
                     (''Download failed: '' @ path_basename env localFolderPath)
                     ''No configuration'') s
      else notify (showDownloadProgress
                     (''Downloading '' @ path_basename env localFolderPath @ ''...''))
             (s\<lparr>isSyncingOrDownloading := True\<rparr>))"

definition downloadRemotePath_begin :: "FTPManager \<Rightarrow> FTPManager" where
  "downloadRemotePath_begin s =
     (if isSyncingOrDownloading s then s
      else snd (checkConnection_begin ''downloadRemotePath'' s))"

definition downloadRemotePath_end ::
  "Env \<Rightarrow> string \<Rightarrow> string \<Rightarrow> JsError option \<Rightarrow> FTPManager \<Rightarrow> FTPManager" where
  "downloadRemotePath_end env localFolderPath remoteFolderPath failure s =
     (let s1 = (case failure of
                  None \<Rightarrow> notify (showDownloadSuccess
                                    (''Downloaded '' @ path_basename env localFolderPath)) s
                | Some e \<Rightarrow>
                    notify (showDownloadError
                              (''Download failed: '' @ path_basename env localFolderPath)
                              (message e))
                      (handleFTPError e (''download remote path '' @ remoteFolderPath) s))
      in notify updateStatusBar (s1\<lparr>isSyncingOrDownloading := False\<rparr>))"


subsection \<open>FTPManager: runs\<close>

text \<open>
  What can happen to the manager, one segment at a time: the calls of its public methods
  by the extension and the watcher, the answers of the transport that resume a suspended
  method, the reconnect timer, and the socket of the current client opening or closing.
  The calls of \<^verbatim>\<open>checkConnection\<close> and \<^verbatim>\<open>handleFTPError\<close> made by the deleting,
  syncing and downloading methods are events of their own. The model does not record
  which calls of \<^verbatim>\<open>connect\<close>, \<^verbatim>\<open>syncServerToLocal\<close> and \<^verbatim>\<open>downloadRemotePath\<close>
  are suspended: it accepts their continuations in every state, which adds runs and
  removes none.
\<close>

datatype Event =
    EvSetConfig "FTPConfig option"
  | EvConnect
  | EvAccessDone Result
  | EvListDone Result nat
  | EvDisconnect
  | EvUploadFile string "string option" bool nat
  | EvEnsureDirDone Result
  | EvUploadDone Result
  | EvRetryDelayDone
  | EvTimerFired nat
  | EvSocket bool
  | EvCheckConnection string
  | EvHandleFTPError JsError string
  | EvSyncServerToLocal
  | EvSyncAfterCheck string bool
  | EvSyncEnd string "string option"
  | EvDownloadRemotePath
  | EvDownloadAfterCheck string bool
  | EvDownloadEnd string string "JsError option"

definition setSocketClosed :: "bool \<Rightarrow> FTPManager \<Rightarrow> FTPManager" where
  "setSocketClosed b s =
     (case client s of None \<Rightarrow> s | Some c \<Rightarrow> s\<lparr>client := Some (FTPClient b)\<rparr>)"

fun step :: "Env \<Rightarrow> FTPManager \<Rightarrow> Event \<Rightarrow> FTPManager" where
  "step env s (EvSetConfig cfg) = setConfig cfg s"
| "step env s EvConnect = snd (connect_begin s)"
| "step env s (EvAccessDone Resolved) = snd (connect_afterAccess s)"
| "step env s (EvAccessDone (Rejected e)) = snd (connect_catch (message e) s)"
| "step env s (EvListDone Resolved now) = snd (connect_afterList env now s)"
| "step env s (EvListDone (Rejected e) now) = snd (connect_catch (message e) s)"
| "step env s EvDisconnect = disconnect s"
| "step env s (EvUploadFile local remote ex now) =
     snd (uploadFile env (\<lambda>p. ex) now local remote s)"
| "step env s (EvEnsureDirDone r) = drain_afterEnsureDir env r s"
| "step env s (EvUploadDone r) = drain_afterUpload env r s"
| "step env s EvRetryDelayDone = drain_afterRetryDelay env s"
| "step env s (EvTimerFired t) = reconnectTimerFired t s"
| "step env s (EvSocket b) = setSocketClosed b s"
| "step env s (EvCheckConnection operationName) = snd (checkConnection_begin operationName s)"
| "step env s (EvHandleFTPError e operationContext) = handleFTPError e operationContext s"
| "step env s EvSyncServerToLocal = syncServerToLocal_begin s"
| "step env s (EvSyncAfterCheck localFolderPath ok) =
     syncServerToLocal_afterCheck env localFolderPath ok s"
| "step env s (EvSyncEnd localFolderPath failure) =
     syncServerToLocal_end env localFolderPath failure s"
| "step env s EvDownloadRemotePath = downloadRemotePath_begin s"
| "step env s (EvDownloadAfterCheck localFolderPath ok) =
     downloadRemotePath_afterCheck env localFolderPath ok s"
| "step env s (EvDownloadEnd localFolderPath remoteFolderPath failure) =
     downloadRemotePath_end env localFolderPath remoteFolderPath failure s"

definition run :: "Env \<Rightarrow> FTPManager \<Rightarrow> Event list \<Rightarrow> FTPManager" where
  "run env s evs = foldl (step env) s evs"

text \<open>The tasks the manager holds: those queued and the one in flight.\<close>

definition inFlight :: "FTPManager \<Rightarrow> UploadTask list" where
  "inFlight s =
     (case drainPC s of
        AwaitEnsureDir task \<Rightarrow> [task]
      | AwaitUpload task \<Rightarrow> [task]
      | _ \<Rightarrow> [])"

definition uploadErrors :: "StatusCall list \<Rightarrow> StatusCall list" where
  "uploadErrors calls =
     filter (\<lambda>c. case c of showUploadError f m \<Rightarrow> True | _ \<Rightarrow> False) calls"


subsection \<open>Predicates on the state of the manager\<close>

text \<open>The status never shows \<^verbatim>\<open>connected\<close> and \<^verbatim>\<open>connecting\<close> together.\<close>

definition statusOk :: "FTPManager \<Rightarrow> bool" where
  "statusOk s = (\<not> (connected (connectionStatus s) \<and> connecting (connectionStatus s)))"

text \<open>The timers pending are the one the field \<^verbatim>\<open>reconnectTimer\<close> holds, if any.\<close>

definition timersOk :: "FTPManager \<Rightarrow> bool" where
  "timersOk s =
     (pendingTimeouts s = (case reconnectTimer s of None \<Rightarrow> [] | Some t \<Rightarrow> [t]))"

text \<open>Every task held, queued or in flight, has fewer than \<open>maxRetries\<close> retries.\<close>

definition queueOk :: "FTPManager \<Rightarrow> bool" where
  "queueOk s = list_all (\<lambda>t. retries t < maxRetries) (uploadQueue s)"

definition retriesOk :: "FTPManager \<Rightarrow> bool" where
  "retriesOk s = list_all (\<lambda>t. retries t < maxRetries) (inFlight s @ uploadQueue s)"


text \<open>An activation of \<^verbatim>\<open>processUploadQueue\<close> is suspended only while the flag is up.\<close>

definition pcOk :: "FTPManager \<Rightarrow> bool" where
  "pcOk s = (drainPC s = NotDraining \<or> isProcessingQueue s)"

subsection \<open>TreeSyncEngine: one remote item\<close>

text \<open>
  The body of the loop of \<^verbatim>\<open>_recursiveSync\<close> over the remote items, for the item
  \<open>remoteItem\<close> whose local path is \<open>currentLocalPath\<close>: what is decided for the item
  before any recursion into it, given what \<^verbatim>\<open>localItemStats[remoteItem.name]\<close> gave.
  The ignore list is read through \<^verbatim>\<open>this.config?.ignore\<close>.
\<close>

definition itemDecision ::
  "Env \<Rightarrow> FTPConfig option \<Rightarrow> FileInfo \<Rightarrow> string \<Rightarrow> LocalLookup
     \<Rightarrow> SyncError + SyncDecision" where
  "itemDecision env cfg remoteItem currentLocalPath localStats =
     (if name remoteItem = ''.'' \<or> name remoteItem = ''..'' then Inr skip
      else if shouldIgnoreFile env currentLocalPath
                (case cfg of None \<Rightarrow> None | Some c \<Rightarrow> ignore c) then Inr skip
      else if isDirectory remoteItem then
        (case localStats of
           NoEntry \<Rightarrow> Inr createLocalDir
         | Inherited \<Rightarrow> Inr createLocalDir
         | Entry l \<Rightarrow> if \<not> stat_isDirectory l then Inr createLocalDir else Inr skip)
      else if isFile remoteItem then fileDecision remoteItem localStats
      else Inr skip)"

subsection \<open>FileWatcher\<close>

text \<open>
  The watcher calls the manager without waiting for it; the calls are recorded in
  \<open>manager_calls\<close>. \<open>fileWatcher\<close> holds which handlers \<^verbatim>\<open>startFileSystemWatcher\<close>
  has registered, \<open>saveWatcher\<close> whether the save handler is registered. The map
  \<^verbatim>\<open>uploadDebounce\<close> is a list of pairs with one pair for a path; \<open>debounceTimeouts\<close>
  holds the timers set by \<^verbatim>\<open>debounceUpload\<close> that have neither fired nor been
  cleared, each with the path its callback holds, numbered from \<open>nextDebounceTimeout\<close>.
\<close>

datatype ManagerCall = callUploadFile string | callDeleteFile string | callDeleteDirectory string

record Handlers =
  onAdd :: bool
  onChange :: bool
  onUnlink :: bool
  onUnlinkDir :: bool

record FileWatcher =
  watcher_config :: "FTPConfig option"
  fileWatcher :: "Handlers option"
  saveWatcher :: bool
  isWatching :: bool
  uploadDebounce :: "(string \<times> nat) list"
  debounceTimeouts :: "(nat \<times> string) list"
  nextDebounceTimeout :: nat
  manager_calls :: "ManagerCall list"

definition initialWatcher :: FileWatcher where
  "initialWatcher =
     \<lparr>watcher_config = None, fileWatcher = None, saveWatcher = False, isWatching = False,
      uploadDebounce = [], debounceTimeouts = [], nextDebounceTimeout = 0,
      manager_calls = []\<rparr>"

definition mapDelete :: "string \<Rightarrow> (string \<times> nat) list \<Rightarrow> (string \<times> nat) list" where
  "mapDelete p m = filter (\<lambda>kv. fst kv \<noteq> p) m"

definition mapSet :: "string \<Rightarrow> nat \<Rightarrow> (string \<times> nat) list \<Rightarrow> (string \<times> nat) list" where
  "mapSet p t m = mapDelete p m @ [(p, t)]"

definition clearDebounceTimeout :: "nat \<Rightarrow> FileWatcher \<Rightarrow> FileWatcher" where
  "clearDebounceTimeout t w =
     w\<lparr>debounceTimeouts := filter (\<lambda>tp. fst tp \<noteq> t) (debounceTimeouts w)\<rparr>"

definition debounceUpload :: "Env \<Rightarrow> string \<Rightarrow> FileWatcher \<Rightarrow> FileWatcher" where
  "debounceUpload env filePath w =
     (if \<not> isInWorkspace env filePath then w
      else if shouldIgnoreFile env filePath None then w
      else
        (let w1 = (case map_of (uploadDebounce w) filePath of
                     None \<Rightarrow> w
                   | Some existingTimeout \<Rightarrow> clearDebounceTimeout existingTimeout w);
             timeout = nextDebounceTimeout w1
         in w1\<lparr>debounceTimeouts := debounceTimeouts w1 @ [(timeout, filePath)],
                nextDebounceTimeout := Suc timeout,
                uploadDebounce := mapSet filePath timeout (uploadDebounce w1)\<rparr>))"

text \<open>
  The callback of the timer \<open>t\<close> set by \<^verbatim>\<open>debounceUpload\<close>; a timer that is not
  pending does not fire.
\<close>

definition debounceTimerFired :: "nat \<Rightarrow> FileWatcher \<Rightarrow> FileWatcher" where
  "debounceTimerFired t w =
     (case map_of (debounceTimeouts w) t of
        None \<Rightarrow> w
      | Some filePath \<Rightarrow>
          w\<lparr>debounceTimeouts := filter (\<lambda>tp. fst tp \<noteq> t) (debounceTimeouts w),
            uploadDebounce := mapDelete filePath (uploadDebounce w),
            manager_calls := manager_calls w @ [callUploadFile filePath]\<rparr>)"

text \<open>The handler that \<^verbatim>\<open>startSaveWatcher\<close> registers for saved documents.\<close>

definition onDidSaveTextDocument :: "Env \<Rightarrow> string \<Rightarrow> FileWatcher \<Rightarrow> FileWatcher" where
  "onDidSaveTextDocument env filePath w =
     (if \<not> isInWorkspace env filePath then w
      else if shouldIgnoreFile env filePath None then w
      else
        (let w1 = (case map_of (uploadDebounce w) filePath of
                     None \<Rightarrow> w
                   | Some timeout \<Rightarrow>
                       (clearDebounceTimeout timeout w)
                         \<lparr>uploadDebounce := mapDelete filePath (uploadDebounce w)\<rparr>)
         in w1\<lparr>manager_calls := manager_calls w1 @ [callUploadFile filePath]\<rparr>))"

definition handleFileDelete :: "Env \<Rightarrow> string \<Rightarrow> FileWatcher \<Rightarrow> FileWatcher" where
  "handleFileDelete env filePath w =
     (case watcher_config w of
        None \<Rightarrow> w
      | Some cfg \<Rightarrow>
          if \<not> autoDelete (watcher cfg) then w
          else (case getWorkspaceRoot env of
                  None \<Rightarrow> w
                | Some workspaceRoot \<Rightarrow>
                    if workspaceRoot = [] then w
                    else w\<lparr>manager_calls := manager_calls w
                             @ [callDeleteFile
                                  (toRemotePath env filePath workspaceRoot (remotePath cfg))]\<rparr>))"

definition handleDirectoryDelete :: "Env \<Rightarrow> string \<Rightarrow> FileWatcher \<Rightarrow> FileWatcher" where
  "handleDirectoryDelete env dirPath w =
     (case watcher_config w of
        None \<Rightarrow> w
      | Some cfg \<Rightarrow>
          if \<not> autoDelete (watcher cfg) then w
          else (case getWorkspaceRoot env of
                  None \<Rightarrow> w
                | Some workspaceRoot \<Rightarrow>
                    if workspaceRoot = [] then w
                    else w\<lparr>manager_calls := manager_calls w
                             @ [callDeleteDirectory
                                  (toRemotePath env dirPath workspaceRoot (remotePath cfg))]\<rparr>))"

definition startFileSystemWatcher :: "FTPConfig \<Rightarrow> FileWatcher \<Rightarrow> FileWatcher" where
  "startFileSystemWatcher cfg w =
     (if \<not> autoUpload (watcher cfg) \<and> \<not> uploadOnSave cfg then w
      else w\<lparr>fileWatcher := Some
               \<lparr>onAdd = (\<not> ignoreCreate (watcher cfg) \<and> autoUpload (watcher cfg)),
                onChange = (\<not> ignoreUpdate (watcher cfg) \<and> autoUpload (watcher cfg)),
                onUnlink = (\<not> ignoreDelete (watcher cfg) \<and> autoDelete (watcher cfg)),
                onUnlinkDir = (\<not> ignoreDelete (watcher cfg) \<and> autoDelete (watcher cfg))\<rparr>\<rparr>)"

definition startSaveWatcher :: "FTPConfig \<Rightarrow> FileWatcher \<Rightarrow> FileWatcher" where
  "startSaveWatcher cfg w = (if \<not> uploadOnSave cfg then w else w\<lparr>saveWatcher := True\<rparr>)"

definition start :: "Env \<Rightarrow> FileWatcher \<Rightarrow> FileWatcher" where
  "start env w =
     (case watcher_config w of
        None \<Rightarrow> w
      | Some cfg \<Rightarrow>
          if isWatching w then w
          else (case getWorkspaceRoot env of
                  None \<Rightarrow> w
                | Some workspaceRoot \<Rightarrow>
                    if workspaceRoot = [] then w
                    else (startSaveWatcher cfg (startFileSystemWatcher cfg w))
                           \<lparr>isWatching := True\<rparr>))"

definition stop :: "FileWatcher \<Rightarrow> FileWatcher" where
  "stop w =
     w\<lparr>fileWatcher := None, saveWatcher := False,
       debounceTimeouts :=
         filter (\<lambda>tp. fst tp \<notin> set (map snd (uploadDebounce w))) (debounceTimeouts w),
       uploadDebounce := [], isWatching := False\<rparr>"

definition restart :: "Env \<Rightarrow> FileWatcher \<Rightarrow> FileWatcher" where
  "restart env w = (let w1 = stop w in if watcher_config w1 \<noteq> None then start env w1 else w1)"

definition watcher_setConfig :: "Env \<Rightarrow> FTPConfig option \<Rightarrow> FileWatcher \<Rightarrow> FileWatcher" where
  "watcher_setConfig env cfg w = restart env (w\<lparr>watcher_config := cfg\<rparr>)"

text \<open>
  What can happen to the watcher: calls of its public methods, events of the file system
  and saves of documents, which reach the handlers registered for them, and timers.
\<close>

datatype WatcherEvent =
    WSetConfig "FTPConfig option"
  | WStart
  | WStop
  | WRestart
  | WAdd string
  | WChange string
  | WUnlink string
  | WUnlinkDir string
  | WSave string
  | WTimer nat

fun wstep :: "Env \<Rightarrow> FileWatcher \<Rightarrow> WatcherEvent \<Rightarrow> FileWatcher" where
  "wstep env w (WSetConfig cfg) = watcher_setConfig env cfg w"
| "wstep env w WStart = start env w"
| "wstep env w WStop = stop w"
| "wstep env w WRestart = restart env w"
| "wstep env w (WAdd filePath) =
     (case fileWatcher w of
        None \<Rightarrow> w
      | Some h \<Rightarrow> if onAdd h then debounceUpload env filePath w else w)"
| "wstep env w (WChange filePath) =
     (case fileWatcher w of
        None \<Rightarrow> w
      | Some h \<Rightarrow> if onChange h then debounceUpload env filePath w else w)"
| "wstep env w (WUnlink filePath) =
     (case fileWatcher w of
        None \<Rightarrow> w
      | Some h \<Rightarrow> if onUnlink h then handleFileDelete env filePath w else w)"
| "wstep env w (WUnlinkDir dirPath) =
     (case fileWatcher w of
        None \<Rightarrow> w
      | Some h \<Rightarrow> if onUnlinkDir h then handleDirectoryDelete env dirPath w else w)"
| "wstep env w (WSave filePath) =
     (if saveWatcher w then onDidSaveTextDocument env filePath w else w)"
| "wstep env w (WTimer t) = debounceTimerFired t w"

definition wrun :: "Env \<Rightarrow> FileWatcher \<Rightarrow> WatcherEvent list \<Rightarrow> FileWatcher" where
  "wrun env w evs = foldl (wstep env) w evs"

text \<open>
  A document is saved, in the extension as a whole: the editor notifies the save handler
  if it is registered, and where the handler calls \<^verbatim>\<open>this.ftpManager.uploadFile(filePath)\<close>
  the manager runs \<^verbatim>\<open>uploadFile\<close>, which has no \<^verbatim>\<open>await\<close>, before the handler
  returns.
\<close>

definition documentSaved ::
  "Env \<Rightarrow> (string \<Rightarrow> bool) \<Rightarrow> nat \<Rightarrow> string \<Rightarrow> FileWatcher \<times> FTPManager
     \<Rightarrow> FileWatcher \<times> FTPManager" where
  "documentSaved env existsSync now filePath ws =
     (case ws of (w, s) \<Rightarrow>
        if \<not> saveWatcher w then (w, s)
        else if \<not> isInWorkspace env filePath then (w, s)
        else if shouldIgnoreFile env filePath None then (w, s)
        else (onDidSaveTextDocument env filePath w,
              snd (uploadFile env existsSync now filePath None s)))"

text \<open>
  Every path with a debounce timer has passed the two tests of \<^verbatim>\<open>debounceUpload\<close>, and
  the numbers of the timers in use are below the next number.
\<close>

definition watcherOk :: "Env \<Rightarrow> FileWatcher \<Rightarrow> bool" where
  "watcherOk env w =
     (list_all (\<lambda>kv. isInWorkspace env (fst kv) \<and> \<not> shouldIgnoreFile env (fst kv) None
                      \<and> snd kv < nextDebounceTimeout w) (uploadDebounce w)
      \<and> list_all (\<lambda>tp. fst tp < nextDebounceTimeout w) (debounceTimeouts w))"

text \<open>Timer \<open>t\<close> has been issued and is not pending: it cannot fire any more.\<close>

definition timerDead :: "nat \<Rightarrow> FileWatcher \<Rightarrow> bool" where
  "timerDead t w = (t < nextDebounceTimeout w \<and> t \<notin> set (map fst (debounceTimeouts w)))"


subsection \<open>Concrete inputs\<close>

text \<open>
  A workspace at \<^verbatim>\<open>/ws\<close>, the default configuration of the extension with one entry
  in its ignore list, and a few states and errors used to evaluate the model.
\<close>

definition exampleEnv :: Env where
  "exampleEnv = posixEnv (Some ''/ws'')"

definition exampleConfig :: FTPConfig where
  "exampleConfig =
     \<lparr>host = ''localhost'', port = 21, remotePath = ''/remote'', uploadOnSave = True,
      watcher = \<lparr>files = ''**/*'', autoUpload = True, autoDelete = False,
                 ignoreCreate = False, ignoreUpdate = False, ignoreDelete = True\<rparr>,
      ignore = Some [''secret.txt'']\<rparr>"

definition everyFileExists :: "string \<Rightarrow> bool" where
  "everyFileExists p = True"

definition noFileExists :: "string \<Rightarrow> bool" where
  "noFileExists p = False"

text \<open>A manager that has connected, and the same while a sync is under way.\<close>

definition connectedManager :: FTPManager where
  "connectedManager =
     run exampleEnv initialManager
       [EvSetConfig (Some exampleConfig), EvConnect, EvSocket False, EvAccessDone Resolved,
        EvListDone Resolved 1]"

definition syncingManager :: FTPManager where
  "syncingManager =
     run exampleEnv connectedManager [EvSyncServerToLocal, EvSyncAfterCheck ''/ws'' True]"

text \<open>
  The events of a first connect that fails, and a manager that waits for the transfer of
  \<^verbatim>\<open>/ws/a.txt\<close>, queued once.
\<close>

definition refusedEvents :: "Event list" where
  "refusedEvents =
     [EvSetConfig (Some exampleConfig), EvConnect,
      EvAccessDone (Rejected \<lparr>ftpCode = None, message = ''connect ECONNREFUSED''\<rparr>)]"

definition uploadingManager :: FTPManager where
  "uploadingManager =
     run exampleEnv connectedManager
       [EvUploadFile ''/ws/a.txt'' None True 2, EvEnsureDirDone Resolved]"

definition exampleTask :: UploadTask where
  "exampleTask =
     \<lparr>localPath = ''/ws/a.txt'', task_remotePath = ''/remote/a.txt'', retries = 0,
      timestamp = 2\<rparr>"

text \<open>
  Two errors that \<^verbatim>\<open>handleFTPError\<close> does not take for a lost connection: the
  server refusing the transfer, and the transport failing to open a local file that is no
  longer there.
\<close>

definition permissionDenied :: JsError where
  "permissionDenied = \<lparr>ftpCode = Some 550, message = ''550 Permission denied''\<rparr>"

definition fileVanished :: JsError where
  "fileVanished =
     \<lparr>ftpCode = None, message = ''ENOENT: no such file or directory, open /ws/a.txt''\<rparr>"

definition notFound :: JsError where
  "notFound = \<lparr>ftpCode = Some 550, message = ''550 No such file or directory''\<rparr>"

text \<open>The events after which \<^verbatim>\<open>/ws/a.txt\<close> has failed twice and is in flight again.\<close>

definition twiceFailedEvents :: "Event list" where
  "twiceFailedEvents =
     [EvSetConfig (Some exampleConfig), EvConnect, EvSocket False, EvAccessDone Resolved,
      EvListDone Resolved 1, EvUploadFile ''/ws/a.txt'' None True 2, EvEnsureDirDone Resolved,
      EvUploadDone (Rejected permissionDenied), EvRetryDelayDone, EvEnsureDirDone Resolved,
      EvUploadDone (Rejected permissionDenied), EvRetryDelayDone, EvEnsureDirDone Resolved]"

text \<open>The watcher configured, then a change of \<^verbatim>\<open>/ws/a.txt\<close> on disk.\<close>

definition debouncedEvents :: "WatcherEvent list" where
  "debouncedEvents = [WSetConfig (Some exampleConfig), WChange ''/ws/a.txt'']"

text \<open>
  The file \<^verbatim>\<open>/ws/secret.txt\<close>, which the ignore list of the configuration names:
  saved, changed on disk, and listed by the server.
\<close>

definition secretSavedEvents :: "WatcherEvent list" where
  "secretSavedEvents = [WSetConfig (Some exampleConfig), WSave ''/ws/secret.txt'']"

definition secretChangedEvents :: "WatcherEvent list" where
  "secretChangedEvents = [WSetConfig (Some exampleConfig), WChange ''/ws/secret.txt'']"

definition secretItem :: FileInfo where
  "secretItem = \<lparr>name = ''secret.txt'', isDirectory = False, isFile = True,
      size = Some (Num 1), modifiedAt = Some (ValidDate 1)\<rparr>"



definition remoteConstructor :: FileInfo where
  "remoteConstructor =
     \<lparr>name = ''constructor'', isDirectory = False, isFile = True, size = Some (Num 100),
      modifiedAt = Some (ValidDate 1000)\<rparr>"

text \<open>
  A manager that waits for the remote directory of \<^verbatim>\<open>/ws/a.txt\<close> to be ensured, and
  the same after the socket of its client has closed.
\<close>

definition ensuringManager :: FTPManager where
  "ensuringManager = run exampleEnv connectedManager [EvUploadFile ''/ws/a.txt'' None True 2]"

definition ensuringClosedManager :: FTPManager where
  "ensuringClosedManager = run exampleEnv ensuringManager [EvSocket True]"

text \<open>
  The example configuration without upload on save, and a change of \<^verbatim>\<open>/ws/a.txt\<close> on
  disk under it.
\<close>

definition watchOnlyConfig :: FTPConfig where
  "watchOnlyConfig = exampleConfig\<lparr>uploadOnSave := False\<rparr>"

definition watchOnlyEvents :: "WatcherEvent list" where
  "watchOnlyEvents = [WSetConfig (Some watchOnlyConfig), WChange ''/ws/a.txt'']"


section \<open>Verified properties\<close>
subsection \<open>Properties of the sync decision\<close>




text \<open>
  What the amended claim leaves out: a remote file that bears the name of a member of
  \<^verbatim>\<open>Object.prototype\<close>, with no local item of that name. The table gives the
  inherited member, and the comparison throws at its log line.
\<close>

lemma inherited_name_aborts_sync:
  "getLocalItem emptyLocalItemStats (name remoteConstructor) = Inherited
   \<and> fileDecision remoteConstructor (getLocalItem emptyLocalItemStats (name remoteConstructor))
       = Inl RangeError"
  by (simp add: getLocalItem_def emptyLocalItemStats_def remoteConstructor_def
      objectPrototypeNames_def fileDecision_def)

subsection \<open>What the helpers of the manager leave unchanged\<close>

lemma notify_fields [simp]:
  "client (notify c s) = client s"
  "config (notify c s) = config s"
  "connectionStatus (notify c s) = connectionStatus s"
  "uploadQueue (notify c s) = uploadQueue s"
  "isProcessingQueue (notify c s) = isProcessingQueue s"
  "reconnectTimer (notify c s) = reconnectTimer s"
  "isSyncingOrDownloading (notify c s) = isSyncingOrDownloading s"
  "drainPC (notify c s) = drainPC s"
  "pendingTimeouts (notify c s) = pendingTimeouts s"
  "nextTimeout (notify c s) = nextTimeout s"
  "status_log (notify c s) = status_log s @ [c]"
  by (simp_all add: notify_def)

lemma clearReconnectTimer_fields [simp]:
  "client (clearReconnectTimer s) = client s"
  "config (clearReconnectTimer s) = config s"
  "connectionStatus (clearReconnectTimer s) = connectionStatus s"
  "uploadQueue (clearReconnectTimer s) = uploadQueue s"
  "isProcessingQueue (clearReconnectTimer s) = isProcessingQueue s"
  "isSyncingOrDownloading (clearReconnectTimer s) = isSyncingOrDownloading s"
  "drainPC (clearReconnectTimer s) = drainPC s"
  "nextTimeout (clearReconnectTimer s) = nextTimeout s"
  "status_log (clearReconnectTimer s) = status_log s"
  "reconnectTimer (clearReconnectTimer s) = None"
  by (simp_all add: clearReconnectTimer_def split: option.split)

lemma scheduleReconnect_fields [simp]:
  "client (scheduleReconnect s) = client s"
  "config (scheduleReconnect s) = config s"
  "connectionStatus (scheduleReconnect s) = connectionStatus s"
  "uploadQueue (scheduleReconnect s) = uploadQueue s"
  "isProcessingQueue (scheduleReconnect s) = isProcessingQueue s"
  "isSyncingOrDownloading (scheduleReconnect s) = isSyncingOrDownloading s"
  "drainPC (scheduleReconnect s) = drainPC s"
  "status_log (scheduleReconnect s) = status_log s"
  by (simp_all add: scheduleReconnect_def)

lemma isConnected_notify [simp]: "isConnected (notify c s) = isConnected s"
  by (simp add: isConnected_def)

lemma clientClosed_notify [simp]: "clientClosed (notify c s) = clientClosed s"
  by (simp add: clientClosed_def)

lemma inFlight_notify [simp]: "inFlight (notify c s) = inFlight s"
  by (simp add: inFlight_def)

lemma handleFTPError_fields [simp]:
  "client (handleFTPError e c s) = client s"
  "config (handleFTPError e c s) = config s"
  "uploadQueue (handleFTPError e c s) = uploadQueue s"
  "isProcessingQueue (handleFTPError e c s) = isProcessingQueue s"
  "isSyncingOrDownloading (handleFTPError e c s) = isSyncingOrDownloading s"
  "drainPC (handleFTPError e c s) = drainPC s"
  "connecting (connectionStatus (handleFTPError e c s)) = connecting (connectionStatus s)"
  by (simp_all add: handleFTPError_def Let_def)

lemma handleFTPError_connected:
  "connected (connectionStatus (handleFTPError e c s)) \<Longrightarrow> connected (connectionStatus s)"
  by (simp add: handleFTPError_def Let_def split: if_splits)

lemma clientClosed_handleFTPError [simp]:
  "clientClosed (handleFTPError e c s) = clientClosed s"
  by (simp add: clientClosed_def)

lemma inFlight_handleFTPError [simp]: "inFlight (handleFTPError e c s) = inFlight s"
  by (simp add: inFlight_def)

lemma handleFTPError_fatal: "fatal e \<Longrightarrow> handleFTPError e c s = s"
  by (simp add: handleFTPError_def fatal_def transient_def)

lemma uploadErrors_handleFTPError [simp]:
  "uploadErrors (status_log (handleFTPError e c s)) = uploadErrors (status_log s)"
  by (simp add: handleFTPError_def Let_def uploadErrors_def)

lemma connect_begin_fields [simp]:
  "config (snd (connect_begin s)) = config s"
  "uploadQueue (snd (connect_begin s)) = uploadQueue s"
  "isProcessingQueue (snd (connect_begin s)) = isProcessingQueue s"
  "isSyncingOrDownloading (snd (connect_begin s)) = isSyncingOrDownloading s"
  "drainPC (snd (connect_begin s)) = drainPC s"
  by (simp_all add: connect_begin_def Let_def)

lemma uploadErrors_connect_begin [simp]:
  "uploadErrors (status_log (snd (connect_begin s))) = uploadErrors (status_log s)"
  by (simp add: connect_begin_def Let_def uploadErrors_def)

lemma connect_catch_fields [simp]:
  "config (snd (connect_catch m s)) = config s"
  "uploadQueue (snd (connect_catch m s)) = uploadQueue s"
  "isProcessingQueue (snd (connect_catch m s)) = isProcessingQueue s"
  "isSyncingOrDownloading (snd (connect_catch m s)) = isSyncingOrDownloading s"
  "drainPC (snd (connect_catch m s)) = drainPC s"
  by (simp_all add: connect_catch_def Let_def)


subsection \<open>The status predicate is kept by every segment\<close>

lemma statusOk_handleFTPError: "statusOk s \<Longrightarrow> statusOk (handleFTPError e c s)" 
  using handleFTPError_connected by (auto simp add: statusOk_def)

lemma statusOk_connect_begin: "statusOk s \<Longrightarrow> statusOk (snd (connect_begin s))"
  by (auto simp add: connect_begin_def Let_def statusOk_def initialStatus_def)

lemma statusOk_connect_catch: "statusOk (snd (connect_catch m s))"
  by (simp add: connect_catch_def Let_def statusOk_def initialStatus_def)

lemma statusOk_connect_afterAccess: "statusOk s \<Longrightarrow> statusOk (snd (connect_afterAccess s))"
  by (simp add: connect_afterAccess_def statusOk_connect_catch split: option.split)

lemma statusOk_drain_exit: "statusOk s \<Longrightarrow> statusOk (drain_exit s)"
  by (simp add: drain_exit_def Let_def statusOk_def)

lemma statusOk_update [simp]:
  "statusOk (s\<lparr>isProcessingQueue := b\<rparr>) = statusOk s"
  "statusOk (s\<lparr>drainPC := pc\<rparr>) = statusOk s"
  "statusOk (s\<lparr>uploadQueue := q\<rparr>) = statusOk s"
  "statusOk (s\<lparr>client := cl\<rparr>) = statusOk s"
  "statusOk (s\<lparr>config := cf\<rparr>) = statusOk s"
  "statusOk (s\<lparr>isSyncingOrDownloading := b\<rparr>) = statusOk s"
  "statusOk (s\<lparr>pendingTimeouts := ts\<rparr>) = statusOk s"
  "statusOk (s\<lparr>reconnectTimer := rt\<rparr>) = statusOk s"
  "statusOk (notify c s) = statusOk s"
  "statusOk (clearReconnectTimer s) = statusOk s"
  "statusOk (scheduleReconnect s) = statusOk s"
  by (simp_all add: statusOk_def)

lemma statusOk_drain_loopHead: "statusOk s \<Longrightarrow> statusOk (drain_loopHead env s)"
  by (simp add: drain_loopHead_def Let_def statusOk_drain_exit statusOk_connect_begin split: list.split)

lemma statusOk_processUploadQueue_begin: "statusOk s \<Longrightarrow> statusOk (processUploadQueue_begin env s)"
  by (simp add: processUploadQueue_begin_def statusOk_drain_loopHead statusOk_connect_begin)

lemma statusOk_drain_afterCatch: "statusOk s \<Longrightarrow> statusOk (drain_afterCatch env s)"
  by (simp add: drain_afterCatch_def statusOk_drain_loopHead statusOk_drain_exit)

lemma statusOk_drain_catch: "statusOk s \<Longrightarrow> statusOk (drain_catch env t e s)"
  by (simp add: drain_catch_def Let_def statusOk_drain_afterCatch statusOk_handleFTPError)

lemma statusOk_drain_afterEnsureDir: "statusOk s \<Longrightarrow> statusOk (drain_afterEnsureDir env r s)"
  by (simp add: drain_afterEnsureDir_def statusOk_drain_catch statusOk_handleFTPError split: DrainPC.split Result.split)

lemma statusOk_drain_afterUpload: "statusOk s \<Longrightarrow> statusOk (drain_afterUpload env r s)"
  by (simp add: drain_afterUpload_def statusOk_drain_catch statusOk_drain_loopHead split: DrainPC.split Result.split)

lemma statusOk_drain_afterRetryDelay: "statusOk s \<Longrightarrow> statusOk (drain_afterRetryDelay env s)"
  by (simp add: drain_afterRetryDelay_def statusOk_drain_afterCatch split: DrainPC.split)

lemma statusOk_uploadFile: "statusOk s \<Longrightarrow> statusOk (snd (uploadFile env ex now l r s))"
  by (simp add: uploadFile_def Let_def statusOk_processUploadQueue_begin statusOk_connect_begin split: option.split)

lemma statusOk_connect_afterList: "statusOk s \<Longrightarrow> statusOk (snd (connect_afterList env now s))"
proof (cases "config s")
  case None then show ?thesis by (simp add: connect_afterList_def statusOk_connect_catch)
next
  case (Some cfg)
  have "statusOk (s\<lparr>connectionStatus := \<lparr>connected = True, connecting = False, error = None,
                        lastConnected = Some now, status_host = Some (host cfg)\<rparr>\<rparr>)"
    by (simp add: statusOk_def)
  then show ?thesis using Some
    by (simp add: connect_afterList_def Let_def statusOk_processUploadQueue_begin)
qed

lemma statusOk_disconnect: "statusOk (disconnect s)"
  by (simp add: disconnect_def Let_def) (simp add: statusOk_def initialStatus_def)

lemma statusOk_setConfig: "statusOk s \<Longrightarrow> statusOk (setConfig cfg s)"
  by (simp add: setConfig_def Let_def statusOk_disconnect)

lemma statusOk_reconnectTimerFired: "statusOk s \<Longrightarrow> statusOk (reconnectTimerFired t s)"
  by (simp add: reconnectTimerFired_def Let_def statusOk_connect_begin)

lemma statusOk_checkConnection_begin: "statusOk s \<Longrightarrow> statusOk (snd (checkConnection_begin n s))"
proof -
  have "statusOk (s\<lparr>connectionStatus := (connectionStatus s)\<lparr>connected := False\<rparr>\<rparr>)"
    by (simp add: statusOk_def)
  then show "statusOk s \<Longrightarrow> ?thesis"
    by (simp add: checkConnection_begin_def Let_def statusOk_connect_begin)
qed

lemma statusOk_setSocketClosed: "statusOk s \<Longrightarrow> statusOk (setSocketClosed b s)"
  by (simp add: setSocketClosed_def split: option.split)

lemma statusOk_sync:
  "statusOk s \<Longrightarrow> statusOk (syncServerToLocal_afterCheck env l ok s)"
  "statusOk s \<Longrightarrow> statusOk (syncServerToLocal_end env l f s)"
  "statusOk s \<Longrightarrow> statusOk (downloadRemotePath_afterCheck env l ok s)"
  "statusOk s \<Longrightarrow> statusOk (downloadRemotePath_end env l r fe s)"
  by (simp_all add: syncServerToLocal_afterCheck_def syncServerToLocal_end_def
      downloadRemotePath_afterCheck_def downloadRemotePath_end_def Let_def statusOk_handleFTPError
      split: option.split)

lemma statusOk_sync_begin:
  "statusOk s \<Longrightarrow> statusOk (syncServerToLocal_begin s)"
  "statusOk s \<Longrightarrow> statusOk (downloadRemotePath_begin s)"
  by (simp_all add: syncServerToLocal_begin_def downloadRemotePath_begin_def
      statusOk_checkConnection_begin)

lemma statusOk_step: "statusOk s \<Longrightarrow> statusOk (step env s ev)"
proof (cases ev)
  case (EvAccessDone r) then show "statusOk s \<Longrightarrow> ?thesis"
    by (cases r) (simp_all add: statusOk_connect_afterAccess statusOk_connect_catch)
next
  case (EvListDone r now) then show "statusOk s \<Longrightarrow> ?thesis"
    by (cases r) (simp_all add: statusOk_connect_afterList statusOk_connect_catch)
qed (simp_all add: statusOk_setConfig statusOk_connect_begin statusOk_disconnect statusOk_uploadFile
    statusOk_drain_afterEnsureDir statusOk_drain_afterUpload statusOk_drain_afterRetryDelay
    statusOk_reconnectTimerFired statusOk_setSocketClosed statusOk_checkConnection_begin
    statusOk_handleFTPError statusOk_sync statusOk_sync_begin)

lemma statusOk_run: "statusOk s \<Longrightarrow> statusOk (run env s evs)"
  unfolding run_def by (induction evs arbitrary: s) (simp_all add: statusOk_step)

lemma statusOk_initial: "statusOk initialManager"
  by (simp add: statusOk_def initialManager_def initialStatus_def)

subsection \<open>The timer predicate is kept by every segment\<close>

lemma timersOk_update [simp]:
  "timersOk (s\<lparr>isProcessingQueue := b\<rparr>) = timersOk s"
  "timersOk (s\<lparr>drainPC := pc\<rparr>) = timersOk s"
  "timersOk (s\<lparr>uploadQueue := q\<rparr>) = timersOk s"
  "timersOk (s\<lparr>client := cl\<rparr>) = timersOk s"
  "timersOk (s\<lparr>config := cf\<rparr>) = timersOk s"
  "timersOk (s\<lparr>isSyncingOrDownloading := b\<rparr>) = timersOk s"
  "timersOk (s\<lparr>connectionStatus := st\<rparr>) = timersOk s"
  "timersOk (notify c s) = timersOk s"
  by (simp_all add: timersOk_def)

lemma timersOk_clearReconnectTimer: "timersOk s \<Longrightarrow> timersOk (clearReconnectTimer s)"
  by (simp add: timersOk_def clearReconnectTimer_def split: option.splits)

lemma timersOk_scheduleReconnect: "timersOk s \<Longrightarrow> timersOk (scheduleReconnect s)"
  by (auto simp add: timersOk_def scheduleReconnect_def split: option.splits)

lemma timersOk_handleFTPError: "timersOk s \<Longrightarrow> timersOk (handleFTPError e c s)" 
  by (simp add: handleFTPError_def Let_def timersOk_scheduleReconnect)

lemma timersOk_connect_begin: "timersOk s \<Longrightarrow> timersOk (snd (connect_begin s))"
  by (simp add: connect_begin_def Let_def timersOk_clearReconnectTimer)

lemma timersOk_connect_catch: "timersOk s \<Longrightarrow> timersOk (snd (connect_catch m s))"
  by (simp add: connect_catch_def Let_def timersOk_scheduleReconnect)

lemma timersOk_connect_afterAccess: "timersOk s \<Longrightarrow> timersOk (snd (connect_afterAccess s))"
  by (simp add: connect_afterAccess_def timersOk_connect_catch split: option.split)

lemma timersOk_drain_exit: "timersOk s \<Longrightarrow> timersOk (drain_exit s)"
  by (simp add: drain_exit_def Let_def)

lemma timersOk_drain_loopHead: "timersOk s \<Longrightarrow> timersOk (drain_loopHead env s)"
  by (simp add: drain_loopHead_def Let_def timersOk_drain_exit timersOk_connect_begin split: list.split)

lemma timersOk_processUploadQueue_begin: "timersOk s \<Longrightarrow> timersOk (processUploadQueue_begin env s)"
  by (simp add: processUploadQueue_begin_def timersOk_drain_loopHead timersOk_connect_begin)

lemma timersOk_drain_afterCatch: "timersOk s \<Longrightarrow> timersOk (drain_afterCatch env s)"
  by (simp add: drain_afterCatch_def timersOk_drain_loopHead timersOk_drain_exit)

lemma timersOk_drain_catch: "timersOk s \<Longrightarrow> timersOk (drain_catch env t e s)"
  by (simp add: drain_catch_def Let_def timersOk_drain_afterCatch timersOk_handleFTPError)

lemma timersOk_drain_afterEnsureDir: "timersOk s \<Longrightarrow> timersOk (drain_afterEnsureDir env r s)"
  by (simp add: drain_afterEnsureDir_def timersOk_drain_catch timersOk_handleFTPError split: DrainPC.split Result.split)

lemma timersOk_drain_afterUpload: "timersOk s \<Longrightarrow> timersOk (drain_afterUpload env r s)"
  by (simp add: drain_afterUpload_def timersOk_drain_catch timersOk_drain_loopHead split: DrainPC.split Result.split)

lemma timersOk_drain_afterRetryDelay: "timersOk s \<Longrightarrow> timersOk (drain_afterRetryDelay env s)"
  by (simp add: drain_afterRetryDelay_def timersOk_drain_afterCatch split: DrainPC.split)

lemma timersOk_uploadFile: "timersOk s \<Longrightarrow> timersOk (snd (uploadFile env ex now l r s))"
  by (simp add: uploadFile_def Let_def timersOk_processUploadQueue_begin timersOk_connect_begin split: option.split)

lemma timersOk_connect_afterList: "timersOk s \<Longrightarrow> timersOk (snd (connect_afterList env now s))"
  by (simp add: connect_afterList_def Let_def timersOk_processUploadQueue_begin timersOk_connect_catch split: option.split)

lemma timersOk_disconnect: "timersOk s \<Longrightarrow> timersOk (disconnect s)"
  by (simp add: disconnect_def Let_def timersOk_clearReconnectTimer)

lemma timersOk_setConfig: "timersOk s \<Longrightarrow> timersOk (setConfig cfg s)"
  by (simp add: setConfig_def Let_def timersOk_disconnect)

lemma timersOk_fired: "timersOk s \<Longrightarrow> t \<in> set (pendingTimeouts s) \<Longrightarrow>
   timersOk (s\<lparr>pendingTimeouts := removeAll t (pendingTimeouts s), reconnectTimer := None\<rparr>)"
  by (auto simp add: timersOk_def split: option.splits)

lemma timersOk_reconnectTimerFired: "timersOk s \<Longrightarrow> timersOk (reconnectTimerFired t s)"
  by (simp add: reconnectTimerFired_def Let_def timersOk_connect_begin timersOk_fired)

lemma timersOk_checkConnection_begin: "timersOk s \<Longrightarrow> timersOk (snd (checkConnection_begin n s))"
  by (simp add: checkConnection_begin_def Let_def timersOk_connect_begin)

lemma timersOk_setSocketClosed: "timersOk s \<Longrightarrow> timersOk (setSocketClosed b s)"
  by (simp add: setSocketClosed_def split: option.split)

lemma timersOk_sync:
  "timersOk s \<Longrightarrow> timersOk (syncServerToLocal_afterCheck env l ok s)"
  "timersOk s \<Longrightarrow> timersOk (syncServerToLocal_end env l f s)"
  "timersOk s \<Longrightarrow> timersOk (downloadRemotePath_afterCheck env l ok s)"
  "timersOk s \<Longrightarrow> timersOk (downloadRemotePath_end env l r fe s)"
  by (simp_all add: syncServerToLocal_afterCheck_def syncServerToLocal_end_def
      downloadRemotePath_afterCheck_def downloadRemotePath_end_def Let_def timersOk_handleFTPError
      split: option.split)

lemma timersOk_sync_begin:
  "timersOk s \<Longrightarrow> timersOk (syncServerToLocal_begin s)"
  "timersOk s \<Longrightarrow> timersOk (downloadRemotePath_begin s)"
  by (simp_all add: syncServerToLocal_begin_def downloadRemotePath_begin_def
      timersOk_checkConnection_begin)

lemma timersOk_step: "timersOk s \<Longrightarrow> timersOk (step env s ev)"
proof (cases ev)
  case (EvAccessDone r) then show "timersOk s \<Longrightarrow> ?thesis"
    by (cases r) (simp_all add: timersOk_connect_afterAccess timersOk_connect_catch)
next
  case (EvListDone r now) then show "timersOk s \<Longrightarrow> ?thesis"
    by (cases r) (simp_all add: timersOk_connect_afterList timersOk_connect_catch)
qed (simp_all add: timersOk_setConfig timersOk_connect_begin timersOk_disconnect timersOk_uploadFile
    timersOk_drain_afterEnsureDir timersOk_drain_afterUpload timersOk_drain_afterRetryDelay
    timersOk_reconnectTimerFired timersOk_setSocketClosed timersOk_checkConnection_begin
    timersOk_handleFTPError timersOk_sync timersOk_sync_begin)

lemma timersOk_run: "timersOk s \<Longrightarrow> timersOk (run env s evs)"
  unfolding run_def by (induction evs arbitrary: s) (simp_all add: timersOk_step)

lemma timersOk_initial: "timersOk initialManager"
  by (simp add: timersOk_def initialManager_def)

lemma timersOk_length: "timersOk s \<Longrightarrow> length (pendingTimeouts s) \<le> 1"
  by (simp add: timersOk_def split: option.split)

subsection \<open>The bound on retries is kept by every segment\<close>

lemma retriesOk_queueOk: "retriesOk s \<Longrightarrow> queueOk s"
  by (simp add: retriesOk_def queueOk_def)

lemma queueOk_update [simp]:
  "queueOk (s\<lparr>isProcessingQueue := b\<rparr>) = queueOk s"
  "queueOk (s\<lparr>drainPC := pc\<rparr>) = queueOk s"
  "queueOk (s\<lparr>client := cl\<rparr>) = queueOk s"
  "queueOk (s\<lparr>config := cf\<rparr>) = queueOk s"
  "queueOk (s\<lparr>isSyncingOrDownloading := b\<rparr>) = queueOk s"
  "queueOk (s\<lparr>connectionStatus := st\<rparr>) = queueOk s"
  "queueOk (s\<lparr>pendingTimeouts := ts\<rparr>) = queueOk s"
  "queueOk (s\<lparr>reconnectTimer := rt\<rparr>) = queueOk s"
  "queueOk (notify c s) = queueOk s"
  "queueOk (handleFTPError e ctx s) = queueOk s"
  "queueOk (snd (connect_begin s)) = queueOk s"
  "queueOk (snd (connect_catch m s)) = queueOk s"
  by (simp_all add: queueOk_def)

lemma retriesOk_update [simp]:
  "retriesOk (s\<lparr>isProcessingQueue := b\<rparr>) = retriesOk s"
  "retriesOk (s\<lparr>client := cl\<rparr>) = retriesOk s"
  "retriesOk (s\<lparr>config := cf\<rparr>) = retriesOk s"
  "retriesOk (s\<lparr>isSyncingOrDownloading := b\<rparr>) = retriesOk s"
  "retriesOk (s\<lparr>connectionStatus := st\<rparr>) = retriesOk s"
  "retriesOk (s\<lparr>pendingTimeouts := ts\<rparr>) = retriesOk s"
  "retriesOk (s\<lparr>reconnectTimer := rt\<rparr>) = retriesOk s"
  "retriesOk (notify c s) = retriesOk s"
  "retriesOk (handleFTPError e ctx s) = retriesOk s"
  "retriesOk (snd (connect_begin s)) = retriesOk s"
  "retriesOk (snd (connect_catch m s)) = retriesOk s"
  by (simp_all add: retriesOk_def inFlight_def)

lemma retriesOk_NotDraining: "queueOk s \<Longrightarrow> retriesOk (s\<lparr>drainPC := NotDraining\<rparr>)"
  by (simp add: retriesOk_def queueOk_def inFlight_def)

lemma retriesOk_drain_exit: "queueOk s \<Longrightarrow> retriesOk (drain_exit s)"
  by (simp add: drain_exit_def Let_def retriesOk_def queueOk_def inFlight_def)

lemma retriesOk_drain_loopHead: "queueOk s \<Longrightarrow> retriesOk (drain_loopHead env s)"
proof (cases "uploadQueue s")
  case Nil then show "queueOk s \<Longrightarrow> ?thesis" by (simp add: drain_loopHead_def retriesOk_drain_exit)
next
  case (Cons t rest)
  assume q: "queueOk s"
  have a: "retriesOk (s\<lparr>isProcessingQueue := False, drainPC := NotDraining\<rparr>)"
    using q by (simp add: retriesOk_def queueOk_def inFlight_def)
  show ?thesis using Cons q a
    by (simp add: drain_loopHead_def Let_def) (simp add: retriesOk_def queueOk_def inFlight_def)
qed

lemma retriesOk_processUploadQueue_begin: "retriesOk s \<Longrightarrow> retriesOk (processUploadQueue_begin env s)"
  by (simp add: processUploadQueue_begin_def retriesOk_drain_loopHead retriesOk_queueOk)

lemma retriesOk_drain_afterCatch: "queueOk s \<Longrightarrow> retriesOk (drain_afterCatch env s)"
  by (simp add: drain_afterCatch_def retriesOk_drain_loopHead retriesOk_drain_exit)

lemma retriesOk_drain_catch: "queueOk s \<Longrightarrow> retriesOk (drain_catch env t e s)"
  by (simp add: drain_catch_def Let_def retriesOk_drain_afterCatch)
     (simp add: retriesOk_def queueOk_def inFlight_def)

lemma retriesOk_drain_afterEnsureDir: "retriesOk s \<Longrightarrow> retriesOk (drain_afterEnsureDir env r s)"
  by (simp add: drain_afterEnsureDir_def retriesOk_drain_catch retriesOk_queueOk split: DrainPC.split Result.split)
     (auto simp add: retriesOk_def inFlight_def)

lemma retriesOk_drain_afterUpload: "retriesOk s \<Longrightarrow> retriesOk (drain_afterUpload env r s)"
  by (simp add: drain_afterUpload_def retriesOk_drain_catch retriesOk_drain_loopHead retriesOk_queueOk split: DrainPC.split Result.split)

lemma retriesOk_drain_afterRetryDelay: "retriesOk s \<Longrightarrow> retriesOk (drain_afterRetryDelay env s)"
  by (simp add: drain_afterRetryDelay_def retriesOk_drain_afterCatch retriesOk_queueOk split: DrainPC.split)

lemma retriesOk_enqueue:
  "retriesOk s \<Longrightarrow> retriesOk (s\<lparr>uploadQueue := uploadQueue s @
      [\<lparr>localPath = l, task_remotePath = r, retries = 0, timestamp = now\<rparr>]\<rparr>)"
  by (simp add: retriesOk_def inFlight_def maxRetries_def)

lemma retriesOk_uploadFile: "retriesOk s \<Longrightarrow> retriesOk (snd (uploadFile env ex now l r s))"
  by (simp add: uploadFile_def Let_def retriesOk_processUploadQueue_begin retriesOk_enqueue split: option.split)

lemma retriesOk_connect_afterAccess: "retriesOk s \<Longrightarrow> retriesOk (snd (connect_afterAccess s))"
  by (simp add: connect_afterAccess_def split: option.split)

lemma retriesOk_connect_afterList: "retriesOk s \<Longrightarrow> retriesOk (snd (connect_afterList env now s))"
  by (simp add: connect_afterList_def Let_def retriesOk_processUploadQueue_begin split: option.split)

lemma retriesOk_clearReconnectTimer [simp]: "retriesOk (clearReconnectTimer s) = retriesOk s"
  by (simp add: retriesOk_def inFlight_def)

lemma retriesOk_disconnect: "retriesOk s \<Longrightarrow> retriesOk (disconnect s)"
  by (simp add: disconnect_def Let_def)

lemma retriesOk_setConfig: "retriesOk s \<Longrightarrow> retriesOk (setConfig cfg s)"
  by (simp add: setConfig_def Let_def retriesOk_disconnect)

lemma retriesOk_reconnectTimerFired: "retriesOk s \<Longrightarrow> retriesOk (reconnectTimerFired t s)"
  by (simp add: reconnectTimerFired_def Let_def)

lemma retriesOk_checkConnection_begin: "retriesOk s \<Longrightarrow> retriesOk (snd (checkConnection_begin n s))"
  by (simp add: checkConnection_begin_def Let_def)

lemma retriesOk_setSocketClosed: "retriesOk s \<Longrightarrow> retriesOk (setSocketClosed b s)"
  by (simp add: setSocketClosed_def split: option.split)

lemma retriesOk_sync:
  "retriesOk s \<Longrightarrow> retriesOk (syncServerToLocal_afterCheck env l ok s)"
  "retriesOk s \<Longrightarrow> retriesOk (syncServerToLocal_end env l f s)"
  "retriesOk s \<Longrightarrow> retriesOk (downloadRemotePath_afterCheck env l ok s)"
  "retriesOk s \<Longrightarrow> retriesOk (downloadRemotePath_end env l r fe s)"
  by (simp_all add: syncServerToLocal_afterCheck_def syncServerToLocal_end_def
      downloadRemotePath_afterCheck_def downloadRemotePath_end_def Let_def
      split: option.split)

lemma retriesOk_sync_begin:
  "retriesOk s \<Longrightarrow> retriesOk (syncServerToLocal_begin s)"
  "retriesOk s \<Longrightarrow> retriesOk (downloadRemotePath_begin s)"
  by (simp_all add: syncServerToLocal_begin_def downloadRemotePath_begin_def
      retriesOk_checkConnection_begin)

lemma retriesOk_step: "retriesOk s \<Longrightarrow> retriesOk (step env s ev)"
proof (cases ev)
  case (EvAccessDone r) then show "retriesOk s \<Longrightarrow> ?thesis"
    by (cases r) (simp_all add: retriesOk_connect_afterAccess)
next
  case (EvListDone r now) then show "retriesOk s \<Longrightarrow> ?thesis"
    by (cases r) (simp_all add: retriesOk_connect_afterList)
qed (simp_all add: retriesOk_setConfig retriesOk_disconnect retriesOk_uploadFile
    retriesOk_drain_afterEnsureDir retriesOk_drain_afterUpload retriesOk_drain_afterRetryDelay
    retriesOk_reconnectTimerFired retriesOk_setSocketClosed retriesOk_checkConnection_begin
    retriesOk_sync retriesOk_sync_begin)

lemma retriesOk_run: "retriesOk s \<Longrightarrow> retriesOk (run env s evs)"
  unfolding run_def by (induction evs arbitrary: s) (simp_all add: retriesOk_step)

lemma retriesOk_initial: "retriesOk initialManager"
  by (simp add: retriesOk_def initialManager_def inFlight_def)

subsection \<open>The tasks and the reports of a failed attempt\<close>

lemma uploadErrors_simps [simp]:
  "uploadErrors [] = []"
  "uploadErrors (xs @ ys) = uploadErrors xs @ uploadErrors ys"
  "uploadErrors [showUploadError f m] = [showUploadError f m]"
  "uploadErrors [updateConnectionStatus st] = []"
  "uploadErrors [showUploadProgress f] = []"
  "uploadErrors [showUploadSuccess f] = []"
  "uploadErrors [updateStatusBar] = []"
  by (simp_all add: uploadErrors_def)

lemma drain_exit_tasks:
  "inFlight (drain_exit s) @ uploadQueue (drain_exit s) = uploadQueue s"
  "uploadErrors (status_log (drain_exit s)) = uploadErrors (status_log s)"
  by (simp_all add: drain_exit_def Let_def inFlight_def)

lemma drain_loopHead_tasks:
  "inFlight (drain_loopHead env s) @ uploadQueue (drain_loopHead env s) = uploadQueue s"
  "uploadErrors (status_log (drain_loopHead env s)) = uploadErrors (status_log s)"
  by (simp_all add: drain_loopHead_def Let_def drain_exit_tasks split: list.split)
     (simp_all add: inFlight_def)

lemma drain_afterCatch_tasks:
  "inFlight (drain_afterCatch env s) @ uploadQueue (drain_afterCatch env s) = uploadQueue s"
  "uploadErrors (status_log (drain_afterCatch env s)) = uploadErrors (status_log s)"
  by (simp_all add: drain_afterCatch_def drain_exit_tasks drain_loopHead_tasks)

lemma drain_catch_retry:
  assumes "retries task + 1 < maxRetries" and "\<not> clientClosed s"
  shows "uploadQueue (drain_catch env task e s) = task\<lparr>retries := retries task + 1\<rparr> # uploadQueue s"
    and "drainPC (drain_catch env task e s) = AwaitRetryDelay"
    and "inFlight (drain_catch env task e s) = []"
    and "uploadErrors (status_log (drain_catch env task e s)) = uploadErrors (status_log s)"
  using assms by (simp_all add: drain_catch_def Let_def inFlight_def)

lemma drain_catch_drop:
  assumes "\<not> (retries task + 1 < maxRetries \<and> \<not> clientClosed s)"
  shows "inFlight (drain_catch env task e s) @ uploadQueue (drain_catch env task e s) = uploadQueue s"
    and "uploadErrors (status_log (drain_catch env task e s)) =
           uploadErrors (status_log s) @ [showUploadError (path_basename env (localPath task)) (message e)]"
  using assms by (auto simp add: drain_catch_def Let_def drain_afterCatch_tasks)

lemma drain_catch_fatal_retry:
  assumes "fatal e" and "retries task + 1 < maxRetries" and "\<not> clientClosed s"
  shows "drain_catch env task e s =
           s\<lparr>uploadQueue := task\<lparr>retries := retries task + 1\<rparr> # uploadQueue s,
             drainPC := AwaitRetryDelay\<rparr>"
  using assms by (simp add: drain_catch_def Let_def handleFTPError_fatal)

subsection \<open>What an accepted upload request adds to the tasks held\<close>

lemma pcOk_update [simp]:
  "pcOk (s\<lparr>uploadQueue := q\<rparr>) = pcOk s"
  "pcOk (s\<lparr>client := cl\<rparr>) = pcOk s"
  "pcOk (s\<lparr>config := cf\<rparr>) = pcOk s"
  "pcOk (s\<lparr>isSyncingOrDownloading := b\<rparr>) = pcOk s"
  "pcOk (s\<lparr>connectionStatus := st\<rparr>) = pcOk s"
  "pcOk (s\<lparr>pendingTimeouts := ts\<rparr>) = pcOk s"
  "pcOk (s\<lparr>reconnectTimer := rt\<rparr>) = pcOk s"
  "pcOk (notify c s) = pcOk s"
  "pcOk (handleFTPError e ctx s) = pcOk s"
  "pcOk (clearReconnectTimer s) = pcOk s"
  "pcOk (snd (connect_begin s)) = pcOk s"
  "pcOk (snd (connect_catch m s)) = pcOk s"
  by (simp_all add: pcOk_def)

lemma pcOk_drain_exit: "pcOk (drain_exit s)"
  by (simp add: drain_exit_def Let_def pcOk_def)

lemma pcOk_drain_loopHead: "isProcessingQueue s \<Longrightarrow> pcOk (drain_loopHead env s)"
  by (simp add: drain_loopHead_def Let_def pcOk_drain_exit split: list.split)
     (simp add: pcOk_def)

lemma pcOk_processUploadQueue_begin: "pcOk s \<Longrightarrow> pcOk (processUploadQueue_begin env s)"
  by (simp add: processUploadQueue_begin_def pcOk_drain_loopHead)

lemma pcOk_drain_afterCatch: "isProcessingQueue s \<Longrightarrow> pcOk (drain_afterCatch env s)"
  by (simp add: drain_afterCatch_def pcOk_drain_loopHead pcOk_drain_exit)

lemma pcOk_drain_catch: "isProcessingQueue s \<Longrightarrow> pcOk (drain_catch env t e s)"
  by (simp add: drain_catch_def Let_def pcOk_drain_afterCatch) (simp add: pcOk_def)

lemma pcOk_flag: "pcOk s \<Longrightarrow> drainPC s \<noteq> NotDraining \<Longrightarrow> isProcessingQueue s"
  by (auto simp add: pcOk_def)

lemma pcOk_drain_afterEnsureDir: "pcOk s \<Longrightarrow> pcOk (drain_afterEnsureDir env r s)"
proof (cases "drainPC s")
  case (AwaitEnsureDir t)
  assume ok: "pcOk s"
  with AwaitEnsureDir have fl: "isProcessingQueue s" by (simp add: pcOk_flag)
  then have a: "pcOk (drain_catch env t e s')" if "isProcessingQueue s' = isProcessingQueue s"
    for e s' using that by (simp add: pcOk_drain_catch)
  have b: "pcOk (s\<lparr>drainPC := AwaitUpload t\<rparr>)" using fl by (simp add: pcOk_def)
  show ?thesis using AwaitEnsureDir a b
    by (simp add: drain_afterEnsureDir_def split: Result.split)
qed (simp_all add: drain_afterEnsureDir_def)

lemma pcOk_drain_afterUpload: "pcOk s \<Longrightarrow> pcOk (drain_afterUpload env r s)"
proof (cases "drainPC s")
  case (AwaitUpload t)
  assume ok: "pcOk s"
  with AwaitUpload have fl: "isProcessingQueue s" by (simp add: pcOk_flag)
  show ?thesis using AwaitUpload fl
    by (simp add: drain_afterUpload_def pcOk_drain_catch pcOk_drain_loopHead
        split: Result.split)
qed (simp_all add: drain_afterUpload_def)

lemma pcOk_drain_afterRetryDelay: "pcOk s \<Longrightarrow> pcOk (drain_afterRetryDelay env s)"
proof (cases "drainPC s")
  case AwaitRetryDelay
  assume ok: "pcOk s"
  with AwaitRetryDelay have fl: "isProcessingQueue s" by (simp add: pcOk_flag)
  show ?thesis using AwaitRetryDelay fl
    by (simp add: drain_afterRetryDelay_def pcOk_drain_afterCatch)
qed (simp_all add: drain_afterRetryDelay_def)

lemma pcOk_uploadFile: "pcOk s \<Longrightarrow> pcOk (snd (uploadFile env ex now l r s))"
  by (simp add: uploadFile_def Let_def pcOk_processUploadQueue_begin split: option.split)

lemma pcOk_connect_afterAccess: "pcOk s \<Longrightarrow> pcOk (snd (connect_afterAccess s))"
  by (simp add: connect_afterAccess_def split: option.split)

lemma pcOk_connect_afterList: "pcOk s \<Longrightarrow> pcOk (snd (connect_afterList env now s))"
  by (simp add: connect_afterList_def Let_def pcOk_processUploadQueue_begin split: option.split)

lemma pcOk_disconnect: "pcOk s \<Longrightarrow> pcOk (disconnect s)"
  by (simp add: disconnect_def Let_def)

lemma pcOk_setConfig: "pcOk s \<Longrightarrow> pcOk (setConfig cfg s)"
  by (simp add: setConfig_def Let_def pcOk_disconnect)

lemma pcOk_reconnectTimerFired: "pcOk s \<Longrightarrow> pcOk (reconnectTimerFired t s)"
  by (simp add: reconnectTimerFired_def Let_def)

lemma pcOk_checkConnection_begin: "pcOk s \<Longrightarrow> pcOk (snd (checkConnection_begin n s))"
  by (simp add: checkConnection_begin_def Let_def)

lemma pcOk_setSocketClosed: "pcOk s \<Longrightarrow> pcOk (setSocketClosed b s)"
  by (simp add: setSocketClosed_def split: option.split)

lemma pcOk_sync:
  "pcOk s \<Longrightarrow> pcOk (syncServerToLocal_begin s)"
  "pcOk s \<Longrightarrow> pcOk (downloadRemotePath_begin s)"
  "pcOk s \<Longrightarrow> pcOk (syncServerToLocal_afterCheck env l ok s)"
  "pcOk s \<Longrightarrow> pcOk (syncServerToLocal_end env l f s)"
  "pcOk s \<Longrightarrow> pcOk (downloadRemotePath_afterCheck env l ok s)"
  "pcOk s \<Longrightarrow> pcOk (downloadRemotePath_end env l r fe s)"
  by (simp_all add: syncServerToLocal_begin_def downloadRemotePath_begin_def
      syncServerToLocal_afterCheck_def syncServerToLocal_end_def
      downloadRemotePath_afterCheck_def downloadRemotePath_end_def Let_def
      pcOk_checkConnection_begin split: option.split)

lemma pcOk_step: "pcOk s \<Longrightarrow> pcOk (step env s ev)"
proof (cases ev)
  case (EvAccessDone r) then show "pcOk s \<Longrightarrow> ?thesis"
    by (cases r) (simp_all add: pcOk_connect_afterAccess)
next
  case (EvListDone r now) then show "pcOk s \<Longrightarrow> ?thesis"
    by (cases r) (simp_all add: pcOk_connect_afterList)
qed (simp_all add: pcOk_setConfig pcOk_disconnect pcOk_uploadFile
    pcOk_drain_afterEnsureDir pcOk_drain_afterUpload pcOk_drain_afterRetryDelay
    pcOk_reconnectTimerFired pcOk_setSocketClosed pcOk_checkConnection_begin pcOk_sync)

lemma pcOk_run: "pcOk s \<Longrightarrow> pcOk (run env s evs)"
  unfolding run_def by (induction evs arbitrary: s) (simp_all add: pcOk_step)

lemma pcOk_initial: "pcOk initialManager"
  by (simp add: pcOk_def initialManager_def)

lemma inFlight_connect_begin [simp]: "inFlight (snd (connect_begin s)) = inFlight s"
  by (simp add: inFlight_def)

lemma processUploadQueue_begin_tasks:
  "pcOk s \<Longrightarrow>
   inFlight (processUploadQueue_begin env s) @ uploadQueue (processUploadQueue_begin env s)
     = inFlight s @ uploadQueue s"
proof (cases "isProcessingQueue s \<or> uploadQueue s = [] \<or> \<not> isConnected s")
  case True
  then show ?thesis by (auto simp add: processUploadQueue_begin_def)
next
  case False
  assume "pcOk s"
  with False have "inFlight s = []" by (simp add: pcOk_def inFlight_def)
  with False show ?thesis
    by (simp add: processUploadQueue_begin_def drain_loopHead_tasks)
qed

lemma uploadFile_enqueues:
  assumes "pcOk s" and "\<not> isSyncingOrDownloading s" and "config s = Some cfg"
    and "existsSync p" and "getWorkspaceRoot env = Some wsRoot" and "wsRoot \<noteq> []"
    and "\<not> shouldIgnoreFile env p (ignore cfg)"
  shows "inFlight (snd (uploadFile env existsSync now p None s))
           @ uploadQueue (snd (uploadFile env existsSync now p None s))
         = inFlight s @ uploadQueue s
             @ [\<lparr>localPath = p, task_remotePath = toRemotePath env p wsRoot (remotePath cfg),
                 retries = 0, timestamp = now\<rparr>]"
proof -
  let ?t = "\<lparr>localPath = p, task_remotePath = toRemotePath env p wsRoot (remotePath cfg),
                 retries = 0, timestamp = now\<rparr>"
  let ?s1 = "s\<lparr>uploadQueue := uploadQueue s @ [?t]\<rparr>"
  have ok1: "pcOk ?s1" using assms(1) by simp
  have f1: "inFlight ?s1 = inFlight s" by (simp add: inFlight_def)
  have "snd (uploadFile env existsSync now p None s)
          = (if \<not> isConnected ?s1 then snd (connect_begin ?s1)
             else processUploadQueue_begin env ?s1)"
    using assms by (simp add: uploadFile_def Let_def)
  then show ?thesis
    using processUploadQueue_begin_tasks [OF ok1, of env] f1 by simp
qed

lemma uploadFile_refuses:
  "isSyncingOrDownloading s \<or> config s = None \<or> \<not> existsSync p \<Longrightarrow>
   snd (uploadFile env existsSync now p remote s) = s"
  by (auto simp add: uploadFile_def split: option.split)

subsection \<open>Debounce timers of the watcher\<close>

lemma watcherOk_initial: "watcherOk env initialWatcher"
  by (simp add: watcherOk_def initialWatcher_def)

lemma list_all_mono_less:
  "list_all (\<lambda>x. P x \<and> f x < (n::nat)) xs \<Longrightarrow> n \<le> m \<Longrightarrow> list_all (\<lambda>x. P x \<and> f x < m) xs"
  by (induction xs) auto

lemma watcherOk_clearDebounceTimeout:
  "watcherOk env w \<Longrightarrow> watcherOk env (clearDebounceTimeout t w)"
  by (simp add: watcherOk_def clearDebounceTimeout_def list_all_iff)

lemma watcherOk_debounceUpload: "watcherOk env w \<Longrightarrow> watcherOk env (debounceUpload env p w)"
proof -
  assume ok: "watcherOk env w"
  define w1 where "w1 = (case map_of (uploadDebounce w) p of None \<Rightarrow> w
                   | Some existingTimeout \<Rightarrow> clearDebounceTimeout existingTimeout w)"
  have ok1: "watcherOk env w1"
    using ok by (simp add: w1_def watcherOk_clearDebounceTimeout split: option.split)
  show ?thesis
  proof (cases "isInWorkspace env p \<and> \<not> shouldIgnoreFile env p None")
    case False
    then show ?thesis using ok by (auto simp add: debounceUpload_def)
  next
    case True
    have "watcherOk env (w1\<lparr>debounceTimeouts := debounceTimeouts w1 @ [(nextDebounceTimeout w1, p)],
                nextDebounceTimeout := Suc (nextDebounceTimeout w1),
                uploadDebounce := mapSet p (nextDebounceTimeout w1) (uploadDebounce w1)\<rparr>)"
      using ok1 True
      by (auto simp add: watcherOk_def mapSet_def mapDelete_def list_all_iff less_Suc_eq)
    then show ?thesis using True
      by (simp add: debounceUpload_def Let_def w1_def)
  qed
qed

lemma watcherOk_debounceTimerFired: "watcherOk env w \<Longrightarrow> watcherOk env (debounceTimerFired t w)"
  by (auto simp add: watcherOk_def debounceTimerFired_def mapDelete_def list_all_iff
      split: option.split)

lemma watcherOk_onDidSaveTextDocument:
  "watcherOk env w \<Longrightarrow> watcherOk env (onDidSaveTextDocument env p w)"
  by (auto simp add: watcherOk_def onDidSaveTextDocument_def clearDebounceTimeout_def
      mapDelete_def list_all_iff Let_def split: option.split)

lemma watcherOk_handleDelete:
  "watcherOk env w \<Longrightarrow> watcherOk env (handleFileDelete env p w)"
  "watcherOk env w \<Longrightarrow> watcherOk env (handleDirectoryDelete env p w)"
  by (auto simp add: watcherOk_def handleFileDelete_def handleDirectoryDelete_def
      split: option.split)

lemma watcherOk_stop: "watcherOk env w \<Longrightarrow> watcherOk env (stop w)"
  by (auto simp add: watcherOk_def stop_def list_all_iff)

lemma watcherOk_start: "watcherOk env w \<Longrightarrow> watcherOk env (start env w)"
  by (auto simp add: watcherOk_def start_def startSaveWatcher_def startFileSystemWatcher_def
      split: option.split)

lemma watcherOk_restart: "watcherOk env w \<Longrightarrow> watcherOk env (restart env w)"
  by (simp add: restart_def Let_def watcherOk_stop watcherOk_start)

lemma watcherOk_setConfig: "watcherOk env w \<Longrightarrow> watcherOk env (watcher_setConfig env cfg w)"
proof -
  assume "watcherOk env w"
  then have "watcherOk env (w\<lparr>watcher_config := cfg\<rparr>)" by (simp add: watcherOk_def)
  then show ?thesis unfolding watcher_setConfig_def by (rule watcherOk_restart)
qed

lemma watcherOk_wstep: "watcherOk env w \<Longrightarrow> watcherOk env (wstep env w ev)"
  by (cases ev)
     (simp_all add: watcherOk_setConfig watcherOk_start watcherOk_stop watcherOk_restart
        watcherOk_debounceUpload watcherOk_handleDelete watcherOk_onDidSaveTextDocument
        watcherOk_debounceTimerFired split: option.split)

lemma watcherOk_wrun: "watcherOk env w \<Longrightarrow> watcherOk env (wrun env w evs)"
  unfolding wrun_def by (induction evs arbitrary: w) (simp_all add: watcherOk_wstep)

lemma timerDead_debounceUpload: "timerDead t w \<Longrightarrow> timerDead t (debounceUpload env p w)"
  by (auto simp add: timerDead_def debounceUpload_def clearDebounceTimeout_def Let_def
      split: option.split)

lemma timerDead_wstep: "timerDead t w \<Longrightarrow> timerDead t (wstep env w ev)"
proof (cases ev)
  case (WSetConfig cfg)
  then show "timerDead t w \<Longrightarrow> ?thesis"
    by (auto simp add: timerDead_def watcher_setConfig_def restart_def stop_def start_def
        startSaveWatcher_def startFileSystemWatcher_def Let_def split: option.split)
next
  case WStart
  then show "timerDead t w \<Longrightarrow> ?thesis"
    by (auto simp add: timerDead_def start_def startSaveWatcher_def startFileSystemWatcher_def
        split: option.split)
next
  case WStop
  then show "timerDead t w \<Longrightarrow> ?thesis" by (auto simp add: timerDead_def stop_def)
next
  case WRestart
  then show "timerDead t w \<Longrightarrow> ?thesis"
    by (auto simp add: timerDead_def restart_def stop_def start_def
        startSaveWatcher_def startFileSystemWatcher_def Let_def split: option.split)
next
  case (WAdd p)
  then show "timerDead t w \<Longrightarrow> ?thesis"
    by (simp add: timerDead_debounceUpload split: option.split)
next
  case (WChange p)
  then show "timerDead t w \<Longrightarrow> ?thesis"
    by (simp add: timerDead_debounceUpload split: option.split)
next
  case (WUnlink p)
  then show "timerDead t w \<Longrightarrow> ?thesis"
    by (auto simp add: timerDead_def handleFileDelete_def split: option.split)
next
  case (WUnlinkDir p)
  then show "timerDead t w \<Longrightarrow> ?thesis"
    by (auto simp add: timerDead_def handleDirectoryDelete_def split: option.split)
next
  case (WSave p)
  then show "timerDead t w \<Longrightarrow> ?thesis"
    by (auto simp add: timerDead_def onDidSaveTextDocument_def clearDebounceTimeout_def Let_def
        split: option.split)
next
  case (WTimer t')
  then show "timerDead t w \<Longrightarrow> ?thesis"
    by (auto simp add: timerDead_def debounceTimerFired_def split: option.split)
qed

lemma timerDead_wrun: "timerDead t w \<Longrightarrow> timerDead t (wrun env w evs)"
  unfolding wrun_def by (induction evs arbitrary: w) (simp_all add: timerDead_wstep)

lemma timerDead_no_fire: "timerDead t w \<Longrightarrow> debounceTimerFired t w = w"
proof -
  assume "timerDead t w"
  then have "t \<notin> fst ` set (debounceTimeouts w)" by (simp add: timerDead_def)
  then have "map_of (debounceTimeouts w) t = None" by (simp add: map_of_eq_None_iff)
  then show ?thesis by (simp add: debounceTimerFired_def)
qed

lemma save_with_pending_timer:
  assumes ok: "watcherOk env w" and sw: "saveWatcher w"
    and pending: "map_of (uploadDebounce w) p = Some t"
  shows "manager_calls (wstep env w (WSave p)) = manager_calls w @ [callUploadFile p]"
    and "map_of (uploadDebounce (wstep env w (WSave p))) p = None"
    and "timerDead t (wstep env w (WSave p))"
proof -
  from pending have mem: "(p, t) \<in> set (uploadDebounce w)" by (rule map_of_SomeD)
  with ok have g: "isInWorkspace env p" "\<not> shouldIgnoreFile env p None"
    and lt: "t < nextDebounceTimeout w"
    by (auto simp add: watcherOk_def list_all_iff)
  have eq: "wstep env w (WSave p) =
      (clearDebounceTimeout t w)\<lparr>uploadDebounce := mapDelete p (uploadDebounce w),
         manager_calls := manager_calls w @ [callUploadFile p]\<rparr>"
    using sw g pending by (simp add: onDidSaveTextDocument_def Let_def clearDebounceTimeout_def)
  show "manager_calls (wstep env w (WSave p)) = manager_calls w @ [callUploadFile p]"
    unfolding eq by simp
  have "p \<notin> fst ` set (mapDelete p (uploadDebounce w))" by (auto simp add: mapDelete_def)
  then have "map_of (mapDelete p (uploadDebounce w)) p = None"
    by (simp add: map_of_eq_None_iff)
  then show "map_of (uploadDebounce (wstep env w (WSave p))) p = None" unfolding eq by simp
  show "timerDead t (wstep env w (WSave p))"
    unfolding eq using lt by (auto simp add: timerDead_def clearDebounceTimeout_def)
qed

subsection \<open>Uploads requested during a sync\<close>

text \<open>
  Claim C1, amended. An upload requested while a sync or a download is in progress returns
  true and is not recorded: the state of the manager, its queue included, is left as it
  was, and the end of the sync or of the download neither queues nor starts a transfer.
\<close>

theorem upload_during_sync_is_skipped:
  "isSyncingOrDownloading s \<longrightarrow>
     uploadFile env existsSync now local remote s = (True, s)
     \<and> uploadQueue (syncServerToLocal_end env localFolderPath failure s) = uploadQueue s
     \<and> drainPC (syncServerToLocal_end env localFolderPath failure s) = drainPC s
     \<and> uploadQueue (downloadRemotePath_end env localFolderPath remoteFolderPath failure' s)
         = uploadQueue s
     \<and> drainPC (downloadRemotePath_end env localFolderPath remoteFolderPath failure' s)
         = drainPC s"
  by (simp add: uploadFile_def syncServerToLocal_end_def downloadRemotePath_end_def Let_def
      split: option.split)

lemma syncingManager_eval:
  "syncingManager = connectedManager\<lparr>isSyncingOrDownloading := True,
      status_log := status_log connectedManager @ [showSyncProgress ''Syncing ws...'']\<rparr>"
  by code_simp

text \<open>
  Claim C1, as stated, on a connected manager in the middle of a sync: the upload of
  \<^verbatim>\<open>/ws/a.txt\<close>, an existing file that no pattern ignores, returns true and leaves
  the queue empty; when the sync ends, nothing is queued or in flight. The same call
  without the sync puts the task in flight.
\<close>

theorem upload_during_sync_not_recorded_counterexample:
  "isSyncingOrDownloading syncingManager
   \<and> uploadFile exampleEnv everyFileExists 5 ''/ws/a.txt'' None syncingManager
       = (True, syncingManager)
   \<and> uploadQueue syncingManager = []
   \<and> inFlight syncingManager = []
   \<and> uploadQueue (syncServerToLocal_end exampleEnv ''/ws'' None syncingManager) = []
   \<and> inFlight (syncServerToLocal_end exampleEnv ''/ws'' None syncingManager) = []
   \<and> inFlight (snd (uploadFile exampleEnv everyFileExists 5 ''/ws/a.txt'' None
                      connectedManager))
       = [exampleTask\<lparr>timestamp := 5\<rparr>]"
  by code_simp

theorem upload_during_sync_is_skipped_witness:
  "isSyncingOrDownloading syncingManager
   \<and> uploadFile exampleEnv everyFileExists 5 ''/ws/a.txt'' None syncingManager
       = (True, syncingManager)"
proof -
  have h: "isSyncingOrDownloading syncingManager" by code_simp
  show ?thesis
    using h upload_during_sync_is_skipped [of syncingManager exampleEnv everyFileExists 5
        "''/ws/a.txt''" None] by simp
qed

subsection \<open>Fatal errors of an upload\<close>

lemma uploadingManager_pc: "drainPC uploadingManager = AwaitUpload exampleTask"
  by code_simp

text \<open>
  Claim C3, as stated, on a manager waiting for the transfer of a task never retried, the
  connection open: the server refuses with code 550, an error that is fatal, and the
  task is back at the head of the queue with one retry; no failure is reported.
\<close>

theorem fatal_error_is_retried_counterexample:
  "fatal permissionDenied
   \<and> drainPC uploadingManager = AwaitUpload exampleTask
   \<and> \<not> clientClosed uploadingManager
   \<and> uploadQueue (step exampleEnv uploadingManager (EvUploadDone (Rejected permissionDenied)))
       = [exampleTask\<lparr>retries := 1\<rparr>]
   \<and> drainPC (step exampleEnv uploadingManager (EvUploadDone (Rejected permissionDenied)))
       = AwaitRetryDelay
   \<and> uploadErrors (status_log
         (step exampleEnv uploadingManager (EvUploadDone (Rejected permissionDenied)))) = []"
  by code_simp

lemma fatal_connectionLostBeforeUpload: "fatal connectionLostBeforeUpload"
  by code_simp

text \<open>
  Claim C3, amended. An attempt of an upload fails when the creation of the remote
  directory is rejected, when the connection is found lost right after it (an error the
  handler takes for fatal), or when the transfer is rejected. When the error is fatal,
  the error handler changes nothing (no status change, no reconnect); the task is put back
  at the head of the queue with its retries incremented when these stay below 3 and the
  client is not closed, and is otherwise removed for good and reported once as a failed
  upload.
\<close>

theorem fatal_error_retry_policy:
  "fatal connectionLostBeforeUpload
   \<and> (fatal e
       \<and> (drainPC s = AwaitUpload task \<and> s' = drain_afterUpload env (Rejected e) s
          \<or> drainPC s = AwaitEnsureDir task \<and> s' = drain_afterEnsureDir env (Rejected e) s
          \<or> drainPC s = AwaitEnsureDir task \<and> \<not> isConnected s
              \<and> e = connectionLostBeforeUpload
              \<and> s' = drain_afterEnsureDir env Resolved s) \<longrightarrow>
     handleFTPError e operationContext s = s
     \<and> (retries task + 1 < 3 \<and> \<not> clientClosed s \<longrightarrow>
          s' = s\<lparr>uploadQueue := task\<lparr>retries := retries task + 1\<rparr> # uploadQueue s,
                drainPC := AwaitRetryDelay\<rparr>)
     \<and> (\<not> (retries task + 1 < 3 \<and> \<not> clientClosed s) \<longrightarrow>
          inFlight s' @ uploadQueue s' = uploadQueue s
          \<and> uploadErrors (status_log s')
              = uploadErrors (status_log s)
                  @ [showUploadError (path_basename env (localPath task)) (message e)]))"
proof (intro conjI impI; (elim conjE)?)
  show "fatal connectionLostBeforeUpload" by (rule fatal_connectionLostBeforeUpload)
next
  assume f: "fatal e"
  show "handleFTPError e operationContext s = s"
    using f by (rule handleFTPError_fatal)
next
  assume f: "fatal e"
    and pc: "drainPC s = AwaitUpload task \<and> s' = drain_afterUpload env (Rejected e) s
          \<or> drainPC s = AwaitEnsureDir task \<and> s' = drain_afterEnsureDir env (Rejected e) s
          \<or> drainPC s = AwaitEnsureDir task \<and> \<not> isConnected s
              \<and> e = connectionLostBeforeUpload
              \<and> s' = drain_afterEnsureDir env Resolved s"
  have s': "s' = drain_catch env task e s"
    using pc f by (auto simp add: drain_afterUpload_def drain_afterEnsureDir_def
        handleFTPError_fatal)
  {
    assume r: "retries task + 1 < 3" and c: "\<not> clientClosed s"
    from r have r': "retries task + 1 < maxRetries" by (simp add: maxRetries_def)
    show "s' = s\<lparr>uploadQueue := task\<lparr>retries := retries task + 1\<rparr> # uploadQueue s,
                drainPC := AwaitRetryDelay\<rparr>"
      unfolding s' by (rule drain_catch_fatal_retry [OF f r' c])
  }
  {
    assume d: "\<not> (retries task + 1 < 3 \<and> \<not> clientClosed s)"
    then have d': "\<not> (retries task + 1 < maxRetries \<and> \<not> clientClosed s)"
      by (simp add: maxRetries_def)
    show "inFlight s' @ uploadQueue s' = uploadQueue s"
      unfolding s' by (rule drain_catch_drop(1) [OF d'])
    show "uploadErrors (status_log s')
              = uploadErrors (status_log s)
                  @ [showUploadError (path_basename env (localPath task)) (message e)]"
      unfolding s' by (rule drain_catch_drop(2) [OF d'])
  }
qed

theorem fatal_error_retry_policy_witness:
  "fatal permissionDenied \<and> drainPC uploadingManager = AwaitUpload exampleTask
   \<and> retries exampleTask + 1 < 3 \<and> \<not> clientClosed uploadingManager
   \<and> drain_afterUpload exampleEnv (Rejected permissionDenied) uploadingManager
       = uploadingManager\<lparr>uploadQueue := exampleTask\<lparr>retries := retries exampleTask + 1\<rparr>
                                           # uploadQueue uploadingManager,
                          drainPC := AwaitRetryDelay\<rparr>
   \<and> drainPC ensuringManager = AwaitEnsureDir exampleTask \<and> \<not> clientClosed ensuringManager
   \<and> drain_afterEnsureDir exampleEnv (Rejected permissionDenied) ensuringManager
       = ensuringManager\<lparr>uploadQueue := exampleTask\<lparr>retries := retries exampleTask + 1\<rparr>
                                           # uploadQueue ensuringManager,
                          drainPC := AwaitRetryDelay\<rparr>
   \<and> drainPC ensuringClosedManager = AwaitEnsureDir exampleTask
   \<and> \<not> isConnected ensuringClosedManager
   \<and> \<not> (retries exampleTask + 1 < 3 \<and> \<not> clientClosed ensuringClosedManager)
   \<and> uploadErrors (status_log (drain_afterEnsureDir exampleEnv Resolved ensuringClosedManager))
       = uploadErrors (status_log ensuringClosedManager)
           @ [showUploadError ''a.txt'' ''Connection lost before upload'']"
proof -
  have h1: "fatal permissionDenied" by code_simp
  have h2: "drainPC uploadingManager = AwaitUpload exampleTask" by code_simp
  have h3: "retries exampleTask + 1 < 3" by code_simp
  have h4: "\<not> clientClosed uploadingManager" by code_simp
  have h5: "drainPC ensuringManager = AwaitEnsureDir exampleTask" by code_simp
  have h6: "\<not> clientClosed ensuringManager" by code_simp
  have h7: "drainPC ensuringClosedManager = AwaitEnsureDir exampleTask" by code_simp
  have h8: "\<not> isConnected ensuringClosedManager" by code_simp
  have h9: "\<not> (retries exampleTask + 1 < 3 \<and> \<not> clientClosed ensuringClosedManager)"
    by code_simp
  have h10: "path_basename exampleEnv (localPath exampleTask) = ''a.txt''" by code_simp
  have h11: "message connectionLostBeforeUpload = ''Connection lost before upload''"
    by code_simp
  note T = fatal_error_retry_policy [THEN conjunct2, THEN mp, OF conjI]
  note F = fatal_error_retry_policy [THEN conjunct1]
  have a: "drain_afterUpload exampleEnv (Rejected permissionDenied) uploadingManager
       = uploadingManager\<lparr>uploadQueue := exampleTask\<lparr>retries := retries exampleTask + 1\<rparr>
                                           # uploadQueue uploadingManager,
                          drainPC := AwaitRetryDelay\<rparr>"
    using T [of permissionDenied uploadingManager exampleTask
        "drain_afterUpload exampleEnv (Rejected permissionDenied) uploadingManager" exampleEnv]
      h1 h2 h3 h4 by simp
  have b: "drain_afterEnsureDir exampleEnv (Rejected permissionDenied) ensuringManager
       = ensuringManager\<lparr>uploadQueue := exampleTask\<lparr>retries := retries exampleTask + 1\<rparr>
                                           # uploadQueue ensuringManager,
                          drainPC := AwaitRetryDelay\<rparr>"
    using T [of permissionDenied ensuringManager exampleTask
        "drain_afterEnsureDir exampleEnv (Rejected permissionDenied) ensuringManager" exampleEnv]
      h1 h5 h3 h6 by simp
  have c: "uploadErrors (status_log (drain_afterEnsureDir exampleEnv Resolved ensuringClosedManager))
       = uploadErrors (status_log ensuringClosedManager)
           @ [showUploadError ''a.txt'' ''Connection lost before upload'']"
    using T [of connectionLostBeforeUpload ensuringClosedManager exampleTask
        "drain_afterEnsureDir exampleEnv Resolved ensuringClosedManager" exampleEnv]
      F h7 h8 h9 unfolding h10 h11 by simp
  from h1 h2 h3 h4 h5 h6 h7 h8 h9 a b c show ?thesis by simp
qed

subsection \<open>The bound on retries\<close>

text \<open>
  Claim C5. In every state the manager reaches from its initial state, every task it
  holds, queued or in flight, has fewer than 3 retries, so that the increment of a failed
  attempt never takes the count above 3. When a failed attempt (of the transfer, or of
  the creation of the remote directory before it) takes the count to 3, the task is not
  put back: the tasks held afterwards are those that were queued, and exactly one failed
  upload is reported, for that task.
\<close>

theorem retries_never_exceed_three:
  "list_all (\<lambda>t. retries t < 3)
     (inFlight (run env initialManager evs) @ uploadQueue (run env initialManager evs))
   \<and> (drainPC (run env initialManager evs) = AwaitUpload task \<longrightarrow>
        retries task + 1 \<le> 3
        \<and> (retries task + 1 = 3 \<longrightarrow>
             inFlight (step env (run env initialManager evs) (EvUploadDone (Rejected e)))
               @ uploadQueue (step env (run env initialManager evs) (EvUploadDone (Rejected e)))
               = uploadQueue (run env initialManager evs)
             \<and> uploadErrors (status_log
                   (step env (run env initialManager evs) (EvUploadDone (Rejected e))))
                 = uploadErrors (status_log (run env initialManager evs))
                     @ [showUploadError (path_basename env (localPath task)) (message e)]))
   \<and> (drainPC (run env initialManager evs) = AwaitEnsureDir task \<longrightarrow>
        retries task + 1 \<le> 3
        \<and> (retries task + 1 = 3
             \<and> (r = Rejected e
                  \<or> r = Resolved \<and> \<not> isConnected (run env initialManager evs)
                      \<and> e = connectionLostBeforeUpload) \<longrightarrow>
             inFlight (step env (run env initialManager evs) (EvEnsureDirDone r))
               @ uploadQueue (step env (run env initialManager evs) (EvEnsureDirDone r))
               = uploadQueue (run env initialManager evs)
             \<and> uploadErrors (status_log
                   (step env (run env initialManager evs) (EvEnsureDirDone r)))
                 = uploadErrors (status_log (run env initialManager evs))
                     @ [showUploadError (path_basename env (localPath task)) (message e)]))"
proof -
  let ?s = "run env initialManager evs"
  have ok: "retriesOk ?s"
    using retriesOk_initial by (rule retriesOk_run)
  then have all: "list_all (\<lambda>t. retries t < 3) (inFlight ?s @ uploadQueue ?s)"
    by (simp add: retriesOk_def maxRetries_def)
  have up: "retries task + 1 \<le> 3
        \<and> (retries task + 1 = 3 \<longrightarrow>
             inFlight (step env ?s (EvUploadDone (Rejected e)))
               @ uploadQueue (step env ?s (EvUploadDone (Rejected e))) = uploadQueue ?s
             \<and> uploadErrors (status_log (step env ?s (EvUploadDone (Rejected e))))
                 = uploadErrors (status_log ?s)
                     @ [showUploadError (path_basename env (localPath task)) (message e)])"
    if pc: "drainPC ?s = AwaitUpload task"
  proof (intro conjI impI)
    from pc have "inFlight ?s = [task]" by (simp add: inFlight_def)
    with all show "retries task + 1 \<le> 3" by simp
  next
    assume "retries task + 1 = 3"
    then have d: "\<not> (retries task + 1 < maxRetries \<and> \<not> clientClosed ?s)"
      by (simp add: maxRetries_def)
    show "inFlight (step env ?s (EvUploadDone (Rejected e)))
               @ uploadQueue (step env ?s (EvUploadDone (Rejected e))) = uploadQueue ?s"
      using pc drain_catch_drop(1) [OF d] by (simp add: drain_afterUpload_def)
    show "uploadErrors (status_log (step env ?s (EvUploadDone (Rejected e))))
                 = uploadErrors (status_log ?s)
                     @ [showUploadError (path_basename env (localPath task)) (message e)]"
      using pc drain_catch_drop(2) [OF d] by (simp add: drain_afterUpload_def)
  qed
  have en: "retries task + 1 \<le> 3
        \<and> (retries task + 1 = 3
             \<and> (r = Rejected e \<or> r = Resolved \<and> \<not> isConnected ?s
                      \<and> e = connectionLostBeforeUpload) \<longrightarrow>
             inFlight (step env ?s (EvEnsureDirDone r))
               @ uploadQueue (step env ?s (EvEnsureDirDone r)) = uploadQueue ?s
             \<and> uploadErrors (status_log (step env ?s (EvEnsureDirDone r)))
                 = uploadErrors (status_log ?s)
                     @ [showUploadError (path_basename env (localPath task)) (message e)])"
    if pc: "drainPC ?s = AwaitEnsureDir task"
  proof (intro conjI impI; (elim conjE)?)
    from pc have "inFlight ?s = [task]" by (simp add: inFlight_def)
    with all show "retries task + 1 \<le> 3" by simp
  next
    assume m: "retries task + 1 = 3"
      and r: "r = Rejected e \<or> r = Resolved \<and> \<not> isConnected ?s \<and> e = connectionLostBeforeUpload"
    have d: "\<not> (retries task + 1 < maxRetries \<and> \<not> clientClosed s')" for s'
      using m by (simp add: maxRetries_def)
    from r show "inFlight (step env ?s (EvEnsureDirDone r))
               @ uploadQueue (step env ?s (EvEnsureDirDone r)) = uploadQueue ?s"
      using pc drain_catch_drop(1) [OF d] by (auto simp add: drain_afterEnsureDir_def)
    from r show "uploadErrors (status_log (step env ?s (EvEnsureDirDone r)))
                 = uploadErrors (status_log ?s)
                     @ [showUploadError (path_basename env (localPath task)) (message e)]"
      using pc drain_catch_drop(2) [OF d] by (auto simp add: drain_afterEnsureDir_def)
  qed
  from all up en show ?thesis by blast
qed

theorem retries_never_exceed_three_witness:
  "drainPC (run exampleEnv initialManager twiceFailedEvents)
     = AwaitUpload (exampleTask\<lparr>retries := 2\<rparr>)
   \<and> retries (exampleTask\<lparr>retries := 2\<rparr>) + 1 = 3
   \<and> inFlight (step exampleEnv (run exampleEnv initialManager twiceFailedEvents)
                 (EvUploadDone (Rejected permissionDenied)))
       @ uploadQueue (step exampleEnv (run exampleEnv initialManager twiceFailedEvents)
                 (EvUploadDone (Rejected permissionDenied)))
       = uploadQueue (run exampleEnv initialManager twiceFailedEvents)
   \<and> uploadErrors (status_log (step exampleEnv (run exampleEnv initialManager twiceFailedEvents)
                 (EvUploadDone (Rejected permissionDenied))))
       = uploadErrors (status_log (run exampleEnv initialManager twiceFailedEvents))
           @ [showUploadError ''a.txt'' ''550 Permission denied'']"
proof -
  have h1: "drainPC (run exampleEnv initialManager twiceFailedEvents)
     = AwaitUpload (exampleTask\<lparr>retries := 2\<rparr>)" by code_simp
  have h2: "retries (exampleTask\<lparr>retries := 2\<rparr>) + 1 = 3" by simp
  have h3: "path_basename exampleEnv (localPath (exampleTask\<lparr>retries := 2\<rparr>)) = ''a.txt''"
    by code_simp
  have h4: "message permissionDenied = ''550 Permission denied''" by code_simp
  show ?thesis
    using h1 h2
      retries_never_exceed_three [of exampleEnv twiceFailedEvents
        "exampleTask\<lparr>retries := 2\<rparr>" permissionDenied]
    unfolding h3 h4 by blast
qed

subsection \<open>The connection status\<close>

text \<open>
  Claim C6. In every state the manager reaches from its initial state, whatever the
  events and their order, the status does not show \<^verbatim>\<open>connected\<close> and
  \<^verbatim>\<open>connecting\<close> together; and every segment (the start of a connect, its success, its
  failure, the handling of an error, a disconnect, and all others) keeps this so from
  any state where it holds.
\<close>

theorem connected_and_connecting_never_both:
  "\<not> (connected (connectionStatus (run env initialManager evs))
        \<and> connecting (connectionStatus (run env initialManager evs)))
   \<and> (\<not> (connected (connectionStatus s) \<and> connecting (connectionStatus s)) \<longrightarrow>
        \<not> (connected (connectionStatus (step env s ev))
             \<and> connecting (connectionStatus (step env s ev))))"
proof
  have "statusOk (run env initialManager evs)"
    using statusOk_initial by (rule statusOk_run)
  then show "\<not> (connected (connectionStatus (run env initialManager evs))
        \<and> connecting (connectionStatus (run env initialManager evs)))"
    by (simp add: statusOk_def)
next
  show "\<not> (connected (connectionStatus s) \<and> connecting (connectionStatus s)) \<longrightarrow>
        \<not> (connected (connectionStatus (step env s ev))
             \<and> connecting (connectionStatus (step env s ev)))"
    using statusOk_step [of s env ev] by (simp add: statusOk_def)
qed

theorem connected_and_connecting_never_both_witness:
  "\<not> (connected (connectionStatus connectedManager)
        \<and> connecting (connectionStatus connectedManager))
   \<and> connected (connectionStatus connectedManager)
   \<and> \<not> (connected (connectionStatus (step exampleEnv connectedManager (EvSocket True)))
        \<and> connecting (connectionStatus (step exampleEnv connectedManager (EvSocket True))))
   \<and> \<not> (connected (connectionStatus
             (step exampleEnv (step exampleEnv connectedManager (EvSocket True)) EvConnect))
        \<and> connecting (connectionStatus
             (step exampleEnv (step exampleEnv connectedManager (EvSocket True)) EvConnect)))
   \<and> connecting (connectionStatus
             (step exampleEnv (step exampleEnv connectedManager (EvSocket True)) EvConnect))"
proof -
  have h1: "\<not> (connected (connectionStatus connectedManager)
        \<and> connecting (connectionStatus connectedManager))" by code_simp
  have h2: "connected (connectionStatus connectedManager)" by code_simp
  have h3: "connecting (connectionStatus
             (step exampleEnv (step exampleEnv connectedManager (EvSocket True)) EvConnect))"
    by code_simp
  show ?thesis
    using h1 h2 h3
      connected_and_connecting_never_both [of exampleEnv "[]" connectedManager "EvSocket True"]
      connected_and_connecting_never_both [of exampleEnv "[]"
        "step exampleEnv connectedManager (EvSocket True)" EvConnect]
    by blast
qed

subsection \<open>Files deleted between the request and the transfer\<close>

text \<open>
  Claim C8, as stated, on a manager waiting for the transfer of \<^verbatim>\<open>/ws/a.txt\<close>, queued
  while the file existed: the file has been deleted since, the transport fails to open it,
  and the task is back at the head of the queue with one retry, waiting for the delay of
  the retry; no failure is reported.
\<close>

theorem vanished_file_is_retried_counterexample:
  "drainPC uploadingManager = AwaitUpload exampleTask
   \<and> uploadQueue (drain_afterUpload exampleEnv (Rejected fileVanished) uploadingManager)
       = [exampleTask\<lparr>retries := 1\<rparr>]
   \<and> drainPC (drain_afterUpload exampleEnv (Rejected fileVanished) uploadingManager)
       = AwaitRetryDelay
   \<and> uploadErrors (status_log
         (drain_afterUpload exampleEnv (Rejected fileVanished) uploadingManager)) = []"
  by code_simp

text \<open>
  Claim C8, amended. The existence of the local file is checked when the upload is
  requested (a missing file is refused and nothing is queued) and not when the queue is
  drained. A file deleted in between makes the transfer fail, and that failure is handled
  as any other: the task is put back at the head of the queue with its retries
  incremented while these stay below 3 and the client is not closed, and is otherwise
  removed and reported once as a failed upload.
\<close>

theorem vanished_file_handled_as_any_failure:
  "(\<not> isSyncingOrDownloading s \<and> config s \<noteq> None \<and> \<not> existsSync local \<longrightarrow>
      uploadFile env existsSync now local remote s = (False, s))
   \<and> (drainPC s = AwaitUpload task \<longrightarrow>
        (retries task + 1 < 3 \<and> \<not> clientClosed s \<longrightarrow>
           uploadQueue (drain_afterUpload env (Rejected e) s)
             = task\<lparr>retries := retries task + 1\<rparr> # uploadQueue s
           \<and> drainPC (drain_afterUpload env (Rejected e) s) = AwaitRetryDelay
           \<and> uploadErrors (status_log (drain_afterUpload env (Rejected e) s))
               = uploadErrors (status_log s))
        \<and> (\<not> (retries task + 1 < 3 \<and> \<not> clientClosed s) \<longrightarrow>
             inFlight (drain_afterUpload env (Rejected e) s)
                 @ uploadQueue (drain_afterUpload env (Rejected e) s) = uploadQueue s
             \<and> uploadErrors (status_log (drain_afterUpload env (Rejected e) s))
                 = uploadErrors (status_log s)
                     @ [showUploadError (path_basename env (localPath task)) (message e)]))"
proof (intro conjI impI; (elim conjE)?)
  assume "\<not> isSyncingOrDownloading s" "config s \<noteq> None" "\<not> existsSync local"
  then show "uploadFile env existsSync now local remote s = (False, s)"
    by (auto simp add: uploadFile_def)
next
  assume pc: "drainPC s = AwaitUpload task"
    and r: "retries task + 1 < 3" and c: "\<not> clientClosed s"
  from r have r': "retries task + 1 < maxRetries" by (simp add: maxRetries_def)
  show "uploadQueue (drain_afterUpload env (Rejected e) s)
             = task\<lparr>retries := retries task + 1\<rparr> # uploadQueue s"
    using pc drain_catch_retry(1) [OF r' c] by (simp add: drain_afterUpload_def)
  show "drainPC (drain_afterUpload env (Rejected e) s) = AwaitRetryDelay"
    using pc drain_catch_retry(2) [OF r' c] by (simp add: drain_afterUpload_def)
  show "uploadErrors (status_log (drain_afterUpload env (Rejected e) s))
               = uploadErrors (status_log s)"
    using pc drain_catch_retry(4) [OF r' c] by (simp add: drain_afterUpload_def)
next
  assume pc: "drainPC s = AwaitUpload task"
    and d: "\<not> (retries task + 1 < 3 \<and> \<not> clientClosed s)"
  then have d': "\<not> (retries task + 1 < maxRetries \<and> \<not> clientClosed s)"
    by (simp add: maxRetries_def)
  show "inFlight (drain_afterUpload env (Rejected e) s)
              @ uploadQueue (drain_afterUpload env (Rejected e) s) = uploadQueue s"
    using pc drain_catch_drop(1) [OF d'] by (simp add: drain_afterUpload_def)
  show "uploadErrors (status_log (drain_afterUpload env (Rejected e) s))
              = uploadErrors (status_log s)
                  @ [showUploadError (path_basename env (localPath task)) (message e)]"
    using pc drain_catch_drop(2) [OF d'] by (simp add: drain_afterUpload_def)
qed

theorem vanished_file_handled_as_any_failure_witness:
  "\<not> isSyncingOrDownloading connectedManager \<and> config connectedManager \<noteq> None
   \<and> \<not> noFileExists ''/ws/a.txt''
   \<and> uploadFile exampleEnv noFileExists 2 ''/ws/a.txt'' None connectedManager
       = (False, connectedManager)
   \<and> drainPC uploadingManager = AwaitUpload exampleTask
   \<and> retries exampleTask + 1 < 3 \<and> \<not> clientClosed uploadingManager
   \<and> uploadQueue (drain_afterUpload exampleEnv (Rejected fileVanished) uploadingManager)
       = exampleTask\<lparr>retries := retries exampleTask + 1\<rparr> # uploadQueue uploadingManager
   \<and> \<not> (retries (exampleTask\<lparr>retries := 2\<rparr>) + 1 < 3
          \<and> \<not> clientClosed (uploadingManager\<lparr>drainPC := AwaitUpload (exampleTask\<lparr>retries := 2\<rparr>)\<rparr>))
   \<and> uploadErrors (status_log (drain_afterUpload exampleEnv (Rejected fileVanished)
         (uploadingManager\<lparr>drainPC := AwaitUpload (exampleTask\<lparr>retries := 2\<rparr>)\<rparr>)))
       = uploadErrors (status_log uploadingManager)
           @ [showUploadError ''a.txt'' (message fileVanished)]"
proof -
  have h0: "\<not> isSyncingOrDownloading connectedManager \<and> config connectedManager \<noteq> None
     \<and> \<not> noFileExists ''/ws/a.txt''" by code_simp
  have h2: "drainPC uploadingManager = AwaitUpload exampleTask" by code_simp
  have h3: "retries exampleTask + 1 < 3" by code_simp
  have h4: "\<not> clientClosed uploadingManager" by code_simp
  have h5: "drainPC (uploadingManager\<lparr>drainPC := AwaitUpload (exampleTask\<lparr>retries := 2\<rparr>)\<rparr>)
              = AwaitUpload (exampleTask\<lparr>retries := 2\<rparr>)" by simp
  have h6: "\<not> (retries (exampleTask\<lparr>retries := 2\<rparr>) + 1 < 3
          \<and> \<not> clientClosed (uploadingManager\<lparr>drainPC := AwaitUpload (exampleTask\<lparr>retries := 2\<rparr>)\<rparr>))"
    by simp
  have h7: "path_basename exampleEnv (localPath (exampleTask\<lparr>retries := 2\<rparr>)) = ''a.txt''"
    by code_simp
  have h9: "status_log (uploadingManager\<lparr>drainPC := AwaitUpload (exampleTask\<lparr>retries := 2\<rparr>)\<rparr>)
     = status_log uploadingManager" by simp
  show ?thesis
    using h0 h2 h3 h4 h5 h6
      vanished_file_handled_as_any_failure [of connectedManager noFileExists "''/ws/a.txt''"
        exampleEnv 2 None exampleTask fileVanished]
      vanished_file_handled_as_any_failure [of uploadingManager noFileExists "''/ws/a.txt''"
        exampleEnv 2 None exampleTask fileVanished]
      vanished_file_handled_as_any_failure [of
        "uploadingManager\<lparr>drainPC := AwaitUpload (exampleTask\<lparr>retries := 2\<rparr>)\<rparr>"
        noFileExists "''/ws/a.txt''" exampleEnv 2 None
        "exampleTask\<lparr>retries := 2\<rparr>" fileVanished]
    unfolding h7 h9 by blast
qed

subsection \<open>Deleting what is not there\<close>

text \<open>
  Claim C9. When \<^verbatim>\<open>remove\<close> or \<^verbatim>\<open>removeDir\<close> fails with the protocol error 550,
  \<^verbatim>\<open>deleteFile\<close> and \<^verbatim>\<open>deleteDirectory\<close> return true and leave the manager as it
  is: no status is sent, the connection status is unchanged and no reconnect is scheduled.
  On a live connection the whole call returns true with the state unchanged.
\<close>

theorem delete_not_found_is_benign:
  "ftpCode e = Some 550 \<longrightarrow>
     deleteFile_afterRemove env remote (Rejected e) s = (True, s)
     \<and> deleteDirectory_afterRemoveDir env remote (Rejected e) s = (True, s)
     \<and> (isConnected s \<and> config s \<noteq> None \<longrightarrow>
          deleteFile env remote (Rejected e) s = (Some True, s)
          \<and> deleteDirectory env remote (Rejected e) s = (Some True, s))"
  by (simp add: deleteFile_afterRemove_def deleteDirectory_afterRemoveDir_def deleteFile_def
      deleteDirectory_def checkConnection_begin_def deleteFile_afterCheck_def
      deleteDirectory_afterCheck_def)

theorem delete_not_found_is_benign_witness:
  "ftpCode notFound = Some 550 \<and> isConnected connectedManager
   \<and> config connectedManager \<noteq> None
   \<and> deleteFile exampleEnv ''/remote/gone.txt'' (Rejected notFound) connectedManager
       = (Some True, connectedManager)
   \<and> deleteDirectory exampleEnv ''/remote/gone'' (Rejected notFound) connectedManager
       = (Some True, connectedManager)
   \<and> reconnectTimer connectedManager = None"
proof -
  have h: "ftpCode notFound = Some 550 \<and> isConnected connectedManager
   \<and> config connectedManager \<noteq> None \<and> reconnectTimer connectedManager = None" by code_simp
  show ?thesis
    using h
      delete_not_found_is_benign [of notFound exampleEnv "''/remote/gone.txt''" connectedManager]
      delete_not_found_is_benign [of notFound exampleEnv "''/remote/gone''" connectedManager]
    by blast
qed

subsection \<open>The reconnect timer\<close>

text \<open>
  Claim C10. In every state the manager reaches from its initial state at most one
  reconnect timer is pending. There, \<^verbatim>\<open>scheduleReconnect\<close> changes nothing when a
  timer is pending or a connect is in progress; a \<^verbatim>\<open>connect\<close> that goes on to its
  handshake, and every \<^verbatim>\<open>disconnect\<close>, leave no timer pending.
\<close>

theorem at_most_one_reconnect_timer:
  "length (pendingTimeouts (run env initialManager evs)) \<le> 1
   \<and> (s = run env initialManager evs \<longrightarrow>
        (pendingTimeouts s \<noteq> [] \<or> connecting (connectionStatus s) \<longrightarrow>
           scheduleReconnect s = s)
        \<and> (fst (connect_begin s) = None \<longrightarrow>
             pendingTimeouts (snd (connect_begin s)) = []
             \<and> reconnectTimer (snd (connect_begin s)) = None)
        \<and> pendingTimeouts (disconnect s) = []
        \<and> reconnectTimer (disconnect s) = None)"
proof (intro conjI impI)
  have ok: "timersOk (run env initialManager evs)"
    using timersOk_initial by (rule timersOk_run)
  then show "length (pendingTimeouts (run env initialManager evs)) \<le> 1"
    by (rule timersOk_length)
  assume s: "s = run env initialManager evs"
  with ok have t: "timersOk s" by simp
  show "scheduleReconnect s = s" if "pendingTimeouts s \<noteq> [] \<or> connecting (connectionStatus s)"
    using that t by (auto simp add: scheduleReconnect_def timersOk_def split: option.splits)
  have c: "timersOk (clearReconnectTimer s)" using t by (rule timersOk_clearReconnectTimer)
  then have p: "pendingTimeouts (clearReconnectTimer s) = []" by (simp add: timersOk_def)
  show "pendingTimeouts (snd (connect_begin s)) = []" if "fst (connect_begin s) = None"
    using that p by (simp add: connect_begin_def Let_def split: if_splits)
  show "reconnectTimer (snd (connect_begin s)) = None" if "fst (connect_begin s) = None"
    using that by (simp add: connect_begin_def Let_def split: if_splits)
  show "pendingTimeouts (disconnect s) = []"
    using p by (simp add: disconnect_def Let_def)
  show "reconnectTimer (disconnect s) = None"
    by (simp add: disconnect_def Let_def)
qed

theorem at_most_one_reconnect_timer_witness:
  "pendingTimeouts (run exampleEnv initialManager refusedEvents) = [0]
   \<and> scheduleReconnect (run exampleEnv initialManager refusedEvents)
       = run exampleEnv initialManager refusedEvents
   \<and> fst (connect_begin (run exampleEnv initialManager refusedEvents)) = None
   \<and> pendingTimeouts (snd (connect_begin (run exampleEnv initialManager refusedEvents))) = []
   \<and> pendingTimeouts (disconnect (run exampleEnv initialManager refusedEvents)) = []"
proof -
  have h1: "pendingTimeouts (run exampleEnv initialManager refusedEvents) = [0]" by code_simp
  have h2: "fst (connect_begin (run exampleEnv initialManager refusedEvents)) = None"
    by code_simp
  show ?thesis
    using h1 h2
      at_most_one_reconnect_timer [of exampleEnv refusedEvents
        "run exampleEnv initialManager refusedEvents"]
    by simp
qed

subsection \<open>The ignore decision at its four sites\<close>

text \<open>
  Claim C4, evaluated where it fails. The configuration ignores \<^verbatim>\<open>secret.txt\<close>. For
  the path \<^verbatim>\<open>/ws/secret.txt\<close>, \<^verbatim>\<open>shouldIgnoreFile\<close> answers true with the list of
  the configuration, as \<^verbatim>\<open>uploadFile\<close> and \<^verbatim>\<open>_recursiveSync\<close> call it, and false
  without it, as the watcher calls it: the upload is dropped as ignored and the sync
  skips the item, while \<^verbatim>\<open>debounceUpload\<close> sets a timer for the path and the save
  handler asks the manager to upload it.
\<close>

theorem ignore_decision_differs_between_sites:
  "shouldIgnoreFile exampleEnv ''/ws/secret.txt'' (ignore exampleConfig)
   \<and> \<not> shouldIgnoreFile exampleEnv ''/ws/secret.txt'' None
   \<and> uploadFile exampleEnv everyFileExists 5 ''/ws/secret.txt'' None connectedManager
       = (True, connectedManager)
   \<and> itemDecision exampleEnv (Some exampleConfig) secretItem ''/ws/secret.txt'' NoEntry
       = Inr skip
   \<and> uploadDebounce (wrun exampleEnv initialWatcher secretChangedEvents)
       = [(''/ws/secret.txt'', 0)]
   \<and> manager_calls (wrun exampleEnv initialWatcher secretSavedEvents)
       = [callUploadFile ''/ws/secret.txt'']"
  by code_simp

subsection \<open>Saving a file whose upload is debounced\<close>

text \<open>
  Claim C7, as stated, at two inputs. Without upload on save, a change of
  \<^verbatim>\<open>/ws/a.txt\<close> leaves timer 0 pending; the save of the file changes nothing, and the
  timer fires afterwards. With upload on save and the same timer pending, the save during
  a sync makes the manager skip the upload: its state is unchanged and its queue empty.
\<close>

theorem save_does_not_always_enqueue_counterexample:
  "map_of (uploadDebounce (wrun exampleEnv initialWatcher watchOnlyEvents)) ''/ws/a.txt''
     = Some 0
   \<and> wstep exampleEnv (wrun exampleEnv initialWatcher watchOnlyEvents) (WSave ''/ws/a.txt'')
       = wrun exampleEnv initialWatcher watchOnlyEvents
   \<and> manager_calls (wrun exampleEnv initialWatcher watchOnlyEvents) = []
   \<and> manager_calls
        (wstep exampleEnv
           (wstep exampleEnv (wrun exampleEnv initialWatcher watchOnlyEvents)
              (WSave ''/ws/a.txt''))
           (WTimer 0))
       = [callUploadFile ''/ws/a.txt'']
   \<and> map_of (uploadDebounce (wrun exampleEnv initialWatcher debouncedEvents)) ''/ws/a.txt''
       = Some 0
   \<and> snd (documentSaved exampleEnv everyFileExists 5 ''/ws/a.txt''
             (wrun exampleEnv initialWatcher debouncedEvents, syncingManager))
       = syncingManager
   \<and> uploadQueue syncingManager = []
   \<and> inFlight syncingManager = []"
  by code_simp

text \<open>
  Claim C7, amended. In every state the watcher and the manager reach from their initial
  states, the workspace root being the same throughout, when a debounce timer \<open>t\<close> is
  pending for a path: without the save handler (upload on save is off) the save of the path
  changes nothing. With the save handler, the save removes the timer from the map and
  from the pending timers, so that \<open>t\<close> is never pending again and its firing would
  change nothing, and it makes exactly one call of the manager's \<^verbatim>\<open>uploadFile\<close> for
  the path, at once, whatever the time elapsed. That call adds exactly one task for the
  path to the tasks the manager holds when no sync or download is in progress, the
  manager has a configuration whose ignore list does not match the path, and the file
  exists; it leaves the manager unchanged when a sync or download is in progress, when
  the manager has no configuration, or when the file does not exist.
\<close>

theorem save_cancels_debounce_and_uploads_once:
  "w = wrun env initialWatcher evs \<and> s = run env initialManager mevs
     \<and> map_of (uploadDebounce w) filePath = Some t
     \<and> w' = fst (documentSaved env existsSync now filePath (w, s))
     \<and> s' = snd (documentSaved env existsSync now filePath (w, s)) \<longrightarrow>
   (\<not> saveWatcher w \<longrightarrow> w' = w \<and> s' = s)
   \<and> (saveWatcher w \<longrightarrow>
        w' = wstep env w (WSave filePath)
        \<and> manager_calls w' = manager_calls w @ [callUploadFile filePath]
        \<and> map_of (uploadDebounce w') filePath = None
        \<and> t \<notin> set (map fst (debounceTimeouts (wrun env w' later)))
        \<and> wstep env (wrun env w' later) (WTimer t) = wrun env w' later
        \<and> (\<not> isSyncingOrDownloading s \<and> config s = Some cfg \<and> existsSync filePath
             \<and> \<not> shouldIgnoreFile env filePath (ignore cfg) \<longrightarrow>
            (\<exists>workspaceRoot. getWorkspaceRoot env = Some workspaceRoot
               \<and> inFlight s' @ uploadQueue s'
                   = inFlight s @ uploadQueue s
                       @ [\<lparr>localPath = filePath,
                           task_remotePath =
                             toRemotePath env filePath workspaceRoot (remotePath cfg),
                           retries = 0, timestamp = now\<rparr>]))
        \<and> (isSyncingOrDownloading s \<or> config s = None \<or> \<not> existsSync filePath \<longrightarrow>
             s' = s))"
proof (intro impI, elim conjE)
  assume w: "w = wrun env initialWatcher evs" and s: "s = run env initialManager mevs"
    and pending: "map_of (uploadDebounce w) filePath = Some t"
    and w': "w' = fst (documentSaved env existsSync now filePath (w, s))"
    and s': "s' = snd (documentSaved env existsSync now filePath (w, s))"
  have ok: "watcherOk env w"
    unfolding w using watcherOk_initial by (rule watcherOk_wrun)
  have pc: "pcOk s"
    unfolding s using pcOk_initial by (rule pcOk_run)
  from pending have mem: "(filePath, t) \<in> set (uploadDebounce w)" by (rule map_of_SomeD)
  with ok have g: "isInWorkspace env filePath" "\<not> shouldIgnoreFile env filePath None"
    by (auto simp add: watcherOk_def list_all_iff)
  from g(1) obtain workspaceRoot where root: "getWorkspaceRoot env = Some workspaceRoot"
    "workspaceRoot \<noteq> []"
    by (auto simp add: isInWorkspace_def split: option.splits if_splits)
  have off: "w' = w \<and> s' = s" if "\<not> saveWatcher w"
    using that by (simp add: w' s' documentSaved_def)
  have on: "w' = wstep env w (WSave filePath)
        \<and> manager_calls w' = manager_calls w @ [callUploadFile filePath]
        \<and> map_of (uploadDebounce w') filePath = None
        \<and> t \<notin> set (map fst (debounceTimeouts (wrun env w' later)))
        \<and> wstep env (wrun env w' later) (WTimer t) = wrun env w' later
        \<and> (\<not> isSyncingOrDownloading s \<and> config s = Some cfg \<and> existsSync filePath
             \<and> \<not> shouldIgnoreFile env filePath (ignore cfg) \<longrightarrow>
            (\<exists>workspaceRoot. getWorkspaceRoot env = Some workspaceRoot
               \<and> inFlight s' @ uploadQueue s'
                   = inFlight s @ uploadQueue s
                       @ [\<lparr>localPath = filePath,
                           task_remotePath =
                             toRemotePath env filePath workspaceRoot (remotePath cfg),
                           retries = 0, timestamp = now\<rparr>]))
        \<and> (isSyncingOrDownloading s \<or> config s = None \<or> \<not> existsSync filePath \<longrightarrow>
             s' = s)"
    if sw: "saveWatcher w"
  proof -
    have weq: "w' = wstep env w (WSave filePath)"
      using sw g by (simp add: w' documentSaved_def)
    have seq: "s' = snd (uploadFile env existsSync now filePath None s)"
      using sw g by (simp add: s' documentSaved_def)
    note sv = save_with_pending_timer [OF ok sw pending]
    have dead: "timerDead t (wrun env w' later)"
      unfolding weq using sv(3) by (rule timerDead_wrun)
    have nofire: "wstep env (wrun env w' later) (WTimer t) = wrun env w' later"
      using timerDead_no_fire [OF dead] by simp
    have enq: "\<exists>workspaceRoot. getWorkspaceRoot env = Some workspaceRoot
               \<and> inFlight s' @ uploadQueue s'
                   = inFlight s @ uploadQueue s
                       @ [\<lparr>localPath = filePath,
                           task_remotePath =
                             toRemotePath env filePath workspaceRoot (remotePath cfg),
                           retries = 0, timestamp = now\<rparr>]"
      if "\<not> isSyncingOrDownloading s" "config s = Some cfg" "existsSync filePath"
        "\<not> shouldIgnoreFile env filePath (ignore cfg)"
      unfolding seq
      using uploadFile_enqueues [where existsSync = existsSync and p = filePath and now = now
          and env = env and s = s and cfg = cfg and wsRoot = workspaceRoot, OF pc that(1,2,3) root
          that(4)] root(1) by blast
    have ref: "s' = s"
      if "isSyncingOrDownloading s \<or> config s = None \<or> \<not> existsSync filePath"
      unfolding seq using that by (rule uploadFile_refuses)
    from weq sv(1,2) dead nofire enq ref show ?thesis
      by (simp add: timerDead_def)
  qed
  from off on show "(\<not> saveWatcher w \<longrightarrow> w' = w \<and> s' = s)
   \<and> (saveWatcher w \<longrightarrow>
        w' = wstep env w (WSave filePath)
        \<and> manager_calls w' = manager_calls w @ [callUploadFile filePath]
        \<and> map_of (uploadDebounce w') filePath = None
        \<and> t \<notin> set (map fst (debounceTimeouts (wrun env w' later)))
        \<and> wstep env (wrun env w' later) (WTimer t) = wrun env w' later
        \<and> (\<not> isSyncingOrDownloading s \<and> config s = Some cfg \<and> existsSync filePath
             \<and> \<not> shouldIgnoreFile env filePath (ignore cfg) \<longrightarrow>
            (\<exists>workspaceRoot. getWorkspaceRoot env = Some workspaceRoot
               \<and> inFlight s' @ uploadQueue s'
                   = inFlight s @ uploadQueue s
                       @ [\<lparr>localPath = filePath,
                           task_remotePath =
                             toRemotePath env filePath workspaceRoot (remotePath cfg),
                           retries = 0, timestamp = now\<rparr>]))
        \<and> (isSyncingOrDownloading s \<or> config s = None \<or> \<not> existsSync filePath \<longrightarrow>
             s' = s))"
    by blast
qed

theorem save_cancels_debounce_and_uploads_once_witness:
  "saveWatcher (wrun exampleEnv initialWatcher debouncedEvents)
   \<and> map_of (uploadDebounce (wrun exampleEnv initialWatcher debouncedEvents)) ''/ws/a.txt''
       = Some 0
   \<and> \<not> isSyncingOrDownloading connectedManager
   \<and> config connectedManager = Some exampleConfig
   \<and> everyFileExists ''/ws/a.txt''
   \<and> \<not> shouldIgnoreFile exampleEnv ''/ws/a.txt'' (ignore exampleConfig)
   \<and> manager_calls (fst (documentSaved exampleEnv everyFileExists 5 ''/ws/a.txt''
         (wrun exampleEnv initialWatcher debouncedEvents, connectedManager)))
       = [callUploadFile ''/ws/a.txt'']
   \<and> map_of (uploadDebounce (fst (documentSaved exampleEnv everyFileExists 5 ''/ws/a.txt''
         (wrun exampleEnv initialWatcher debouncedEvents, connectedManager)))) ''/ws/a.txt''
       = None
   \<and> inFlight (snd (documentSaved exampleEnv everyFileExists 5 ''/ws/a.txt''
         (wrun exampleEnv initialWatcher debouncedEvents, connectedManager)))
       @ uploadQueue (snd (documentSaved exampleEnv everyFileExists 5 ''/ws/a.txt''
         (wrun exampleEnv initialWatcher debouncedEvents, connectedManager)))
       = [exampleTask\<lparr>timestamp := 5\<rparr>]
   \<and> isSyncingOrDownloading syncingManager
   \<and> snd (documentSaved exampleEnv everyFileExists 5 ''/ws/a.txt''
         (wrun exampleEnv initialWatcher debouncedEvents, syncingManager)) = syncingManager
   \<and> \<not> saveWatcher (wrun exampleEnv initialWatcher watchOnlyEvents)
   \<and> map_of (uploadDebounce (wrun exampleEnv initialWatcher watchOnlyEvents)) ''/ws/a.txt''
       = Some 0
   \<and> fst (documentSaved exampleEnv everyFileExists 5 ''/ws/a.txt''
         (wrun exampleEnv initialWatcher watchOnlyEvents, connectedManager))
       = wrun exampleEnv initialWatcher watchOnlyEvents"
proof -
  let ?w = "wrun exampleEnv initialWatcher debouncedEvents"
  let ?wo = "wrun exampleEnv initialWatcher watchOnlyEvents"
  let ?p = "''/ws/a.txt''"
  let ?cev = "[EvSetConfig (Some exampleConfig), EvConnect, EvSocket False,
      EvAccessDone Resolved, EvListDone Resolved 1]"
  let ?sev = "?cev @ [EvSyncServerToLocal, EvSyncAfterCheck ''/ws'' True]"
  have c: "connectedManager = run exampleEnv initialManager ?cev"
    by (simp add: connectedManager_def)
  have sy: "syncingManager = run exampleEnv initialManager ?sev"
    by (simp add: syncingManager_def connectedManager_def run_def)
  have h1: "saveWatcher ?w" by code_simp
  have h2: "map_of (uploadDebounce ?w) ?p = Some 0" by code_simp
  have h3: "\<not> isSyncingOrDownloading connectedManager" by code_simp
  have h4: "config connectedManager = Some exampleConfig" by code_simp
  have h5: "everyFileExists ?p" by code_simp
  have h6: "\<not> shouldIgnoreFile exampleEnv ?p (ignore exampleConfig)" by code_simp
  have h7: "isSyncingOrDownloading syncingManager" by code_simp
  have h8: "\<not> saveWatcher ?wo" by code_simp
  have h9: "map_of (uploadDebounce ?wo) ?p = Some 0" by code_simp
  have h10: "manager_calls ?w = []" by code_simp
  have h11: "inFlight connectedManager @ uploadQueue connectedManager = []" by code_simp
  have h12: "getWorkspaceRoot exampleEnv = Some ''/ws''" by code_simp
  have h13: "\<lparr>localPath = ?p,
       task_remotePath = toRemotePath exampleEnv ?p ''/ws'' (remotePath exampleConfig),
       retries = 0, timestamp = 5\<rparr> = exampleTask\<lparr>timestamp := 5\<rparr>" by code_simp
  note A = save_cancels_debounce_and_uploads_once [where env = exampleEnv and w = ?w
      and evs = debouncedEvents and s = connectedManager and mevs = ?cev and filePath = ?p
      and t = 0 and existsSync = everyFileExists and now = 5 and cfg = exampleConfig
      and later = "[]"
      and w' = "fst (documentSaved exampleEnv everyFileExists 5 ?p (?w, connectedManager))"
      and s' = "snd (documentSaved exampleEnv everyFileExists 5 ?p (?w, connectedManager))",
      THEN mp, OF conjI [OF refl conjI [OF c conjI [OF h2 conjI [OF refl refl]]]],
      THEN conjunct2, THEN mp, OF h1]
  note B = save_cancels_debounce_and_uploads_once [where env = exampleEnv and w = ?w
      and evs = debouncedEvents and s = syncingManager and mevs = ?sev and filePath = ?p
      and t = 0 and existsSync = everyFileExists and now = 5 and cfg = exampleConfig
      and later = "[]"
      and w' = "fst (documentSaved exampleEnv everyFileExists 5 ?p (?w, syncingManager))"
      and s' = "snd (documentSaved exampleEnv everyFileExists 5 ?p (?w, syncingManager))",
      THEN mp, OF conjI [OF refl conjI [OF sy conjI [OF h2 conjI [OF refl refl]]]],
      THEN conjunct2, THEN mp, OF h1]
  note C = save_cancels_debounce_and_uploads_once [where env = exampleEnv and w = ?wo
      and evs = watchOnlyEvents and s = connectedManager and mevs = ?cev and filePath = ?p
      and t = 0 and existsSync = everyFileExists and now = 5 and cfg = exampleConfig
      and later = "[]"
      and w' = "fst (documentSaved exampleEnv everyFileExists 5 ?p (?wo, connectedManager))"
      and s' = "snd (documentSaved exampleEnv everyFileExists 5 ?p (?wo, connectedManager))",
      THEN mp, OF conjI [OF refl conjI [OF c conjI [OF h9 conjI [OF refl refl]]]],
      THEN conjunct1, THEN mp, OF h8]
  have a1: "manager_calls (fst (documentSaved exampleEnv everyFileExists 5 ?p
         (?w, connectedManager))) = [callUploadFile ?p]"
    using A [THEN conjunct2, THEN conjunct1] unfolding h10 by simp
  have a2: "map_of (uploadDebounce (fst (documentSaved exampleEnv everyFileExists 5 ?p
         (?w, connectedManager)))) ?p = None"
    by (rule A [THEN conjunct2, THEN conjunct2, THEN conjunct1])
  have a3: "inFlight (snd (documentSaved exampleEnv everyFileExists 5 ?p
         (?w, connectedManager)))
       @ uploadQueue (snd (documentSaved exampleEnv everyFileExists 5 ?p
         (?w, connectedManager))) = [exampleTask\<lparr>timestamp := 5\<rparr>]"
  proof -
    from A [THEN conjunct2, THEN conjunct2, THEN conjunct2, THEN conjunct2, THEN conjunct2, THEN conjunct1, THEN mp, OF conjI [OF h3 conjI [OF h4 conjI [OF h5 h6]]]]
    obtain r where r: "getWorkspaceRoot exampleEnv = Some r"
      and q: "inFlight (snd (documentSaved exampleEnv everyFileExists 5 ?p
                 (?w, connectedManager)))
         @ uploadQueue (snd (documentSaved exampleEnv everyFileExists 5 ?p
                 (?w, connectedManager)))
         = inFlight connectedManager @ uploadQueue connectedManager
             @ [\<lparr>localPath = ?p,
                 task_remotePath = toRemotePath exampleEnv ?p r (remotePath exampleConfig),
                 retries = 0, timestamp = 5\<rparr>]"
      by blast
    from r h12 have "r = ''/ws''" by simp
    with q h13 show ?thesis
      using h11 by (simp only: append_assoc [symmetric] append_Nil)
  qed
  have b1: "snd (documentSaved exampleEnv everyFileExists 5 ?p (?w, syncingManager))
       = syncingManager"
    by (rule B [THEN conjunct2, THEN conjunct2, THEN conjunct2, THEN conjunct2, THEN conjunct2, THEN conjunct2, THEN mp, OF disjI1 [OF h7]])
  have c1: "fst (documentSaved exampleEnv everyFileExists 5 ?p (?wo, connectedManager)) = ?wo"
    by (rule C [THEN conjunct1])
  from h1 h2 h3 h4 h5 h6 h7 h8 h9 a1 a2 a3 b1 c1 show ?thesis by simp
qed

end
